theory Spec2Isabelle
  imports Complex_Main "HOL-Library.Multiset"
begin

section \<open>Python values used by the service\<close>

text \<open>
  The service (\<^verbatim>\<open>app.py\<close>) reads JSON request bodies and applies Python's \<^verbatim>\<open>int()\<close>,
  \<^verbatim>\<open>bool()\<close> and \<^verbatim>\<open>or\<close> to whatever value arrives. A parsed JSON value is one of the
  constructors below. A number with a fraction or an exponent is a Python float; its finite
  values are real numbers, and \<open>JNonFinite\<close> stands for \<^verbatim>\<open>NaN\<close>, \<^verbatim>\<open>Infinity\<close> and
  \<^verbatim>\<open>-Infinity\<close>, which the parser accepts too. An object is the parsed dictionary, given
  as the list of its key/value pairs (one pair for each key) and looked up by key. Strings
  are sequences of ASCII characters. (The parser yields no integer of more than 4300
  digits: a body with such a number does not parse.)
\<close>

datatype json =
    JNull
  | JBool bool
  | JInt int
  | JFloat real
  | JNonFinite
  | JStr string
  | JArr "json list"
  | JObj "(string \<times> json) list"

datatype exn = AttributeError | KeyError | TypeError | ValueError | OverflowError

text \<open>Truth value testing, as \<^verbatim>\<open>bool(v)\<close> and the operator \<^verbatim>\<open>or\<close> do it.\<close>

fun truthy :: "json \<Rightarrow> bool" where
  "truthy JNull = False"
| "truthy (JBool b) = b"
| "truthy (JInt n) = (n \<noteq> 0)"
| "truthy (JFloat x) = (x \<noteq> 0)"
| "truthy JNonFinite = True"
| "truthy (JStr s) = (s \<noteq> [])"
| "truthy (JArr xs) = (xs \<noteq> [])"
| "truthy (JObj kvs) = (kvs \<noteq> [])"

text \<open>\<^verbatim>\<open>a or b\<close>: the first operand when it is truthy, the second otherwise.\<close>

definition py_or :: "json \<Rightarrow> json \<Rightarrow> json" where
  "py_or a b = (if truthy a then a else b)"

subsection \<open>\<^verbatim>\<open>int()\<close> of a string\<close>

text \<open>
  \<^verbatim>\<open>int()\<close> skips the blanks of the C locale around the number: the characters 9 to 13
  and the space.
\<close>

definition is_space :: "char \<Rightarrow> bool" where
  "is_space c = (let n = (of_char c :: nat) in (9 \<le> n \<and> n \<le> 13) \<or> n = 32)"

definition is_digit :: "char \<Rightarrow> bool" where
  "is_digit c = (let n = (of_char c :: nat) in 48 \<le> n \<and> n \<le> 57)"

definition digit_val :: "char \<Rightarrow> nat" where
  "digit_val c = of_char c - 48"

definition strip :: "string \<Rightarrow> string" where
  "strip s = rev (dropWhile is_space (rev (dropWhile is_space s)))"

text \<open>
  Decimal digits, where a single underscore may stand between two digits. The flag says
  whether the character just read was a digit.
\<close>

fun parse_digits :: "bool \<Rightarrow> nat \<Rightarrow> string \<Rightarrow> nat option" where
  "parse_digits prev acc [] = (if prev then Some acc else None)"
| "parse_digits prev acc (c # cs) =
     (if is_digit c then parse_digits True (10 * acc + digit_val c) cs
      else if c = CHR ''_'' \<and> prev then parse_digits False acc cs
      else None)"

text \<open>
  The interpreter refuses to convert a string of more than 4300 digits (the default of
  \<^verbatim>\<open>sys.set_int_max_str_digits\<close>); \<open>None\<close> stands for the \<^verbatim>\<open>ValueError\<close>.
\<close>

definition int_of_str :: "string \<Rightarrow> int option" where
  "int_of_str s =
     (if 4300 < length (filter is_digit (strip s)) then None
      else case strip s of
        [] \<Rightarrow> None
      | c # cs \<Rightarrow>
          if c = CHR ''-'' then map_option (\<lambda>n. - int n) (parse_digits False 0 cs)
          else if c = CHR ''+'' then map_option int (parse_digits False 0 cs)
          else map_option int (parse_digits False 0 (c # cs)))"

text \<open>
  \<^verbatim>\<open>int(v)\<close>: a bool counts as 0 or 1, a float is truncated towards zero, a string is
  parsed, and everything else raises.
\<close>

fun py_int :: "json \<Rightarrow> exn + int" where
  "py_int JNull = Inl TypeError"
| "py_int (JBool b) = Inr (if b then 1 else 0)"
| "py_int (JInt n) = Inr n"
| "py_int (JFloat x) = Inr (if 0 \<le> x then \<lfloor>x\<rfloor> else \<lceil>x\<rceil>)"
| "py_int JNonFinite = Inl OverflowError"
| "py_int (JStr s) = (case int_of_str s of None \<Rightarrow> Inl ValueError | Some n \<Rightarrow> Inr n)"
| "py_int (JArr xs) = Inl TypeError"
| "py_int (JObj kvs) = Inl TypeError"

subsection \<open>\<^verbatim>\<open>str()\<close> of an integer and of a bool, \<^verbatim>\<open>str.capitalize\<close>\<close>

definition digit_char :: "nat \<Rightarrow> char" where
  "digit_char d = char_of (48 + d)"

fun str_nat :: "nat \<Rightarrow> string" where
  "str_nat n = (if n < 10 then [digit_char n] else str_nat (n div 10) @ [digit_char (n mod 10)])"

declare str_nat.simps [simp del]

definition str_int :: "int \<Rightarrow> string" where
  "str_int i = (if i < 0 then CHR ''-'' # str_nat (nat (- i)) else str_nat (nat i))"

definition str_bool :: "bool \<Rightarrow> string" where
  "str_bool b = (if b then ''True'' else ''False'')"

definition upper_char :: "char \<Rightarrow> char" where
  "upper_char c = (let n = (of_char c :: nat) in if 97 \<le> n \<and> n \<le> 122 then char_of (n - 32) else c)"

definition lower_char :: "char \<Rightarrow> char" where
  "lower_char c = (let n = (of_char c :: nat) in if 65 \<le> n \<and> n \<le> 90 then char_of (n + 32) else c)"

definition lower :: "string \<Rightarrow> string" where
  "lower s = map lower_char s"

definition capitalize :: "string \<Rightarrow> string" where
  "capitalize s = (case s of [] \<Rightarrow> [] | c # cs \<Rightarrow> upper_char c # map lower_char cs)"

subsection \<open>Floats\<close>

text \<open>
  A Python float is an IEEE double. Every arithmetic operation, every decimal literal and
  the conversion of an integer return the exact result rounded to 53 significant bits,
  to the nearer neighbour and to the even one on a tie. \<open>round_double\<close> is that rounding
  on the reals, without a bound on the exponent: the simulator's numbers stay far from the
  largest and the smallest double, except in the conversion of an integer, which raises
  when the rounded integer would exceed the largest double.
\<close>

fun bit_length :: "nat \<Rightarrow> nat" where
  "bit_length n = (if n = 0 then 0 else Suc (bit_length (n div 2)))"

declare bit_length.simps [simp del]

definition pow2 :: "int \<Rightarrow> real" where
  "pow2 e = (if 0 \<le> e then 2 ^ nat e else 1 / 2 ^ nat (- e))"

text \<open>The nearest integer, the even one of two that are equally near.\<close>

definition rne :: "real \<Rightarrow> int" where
  "rne x = (let f = \<lfloor>x\<rfloor>; d = x - real_of_int f in
            if d < 1 / 2 then f else if 1 / 2 < d then f + 1 else if even f then f else f + 1)"

text \<open>The binary exponent of a positive number: \<open>pow2 (expo x) \<le> x < pow2 (expo x + 1)\<close>.\<close>

definition expo :: "real \<Rightarrow> int" where
  "expo x = (if 1 \<le> x then int (bit_length (nat \<lfloor>x\<rfloor>)) - 1
             else - int (bit_length (nat (\<lceil>1 / x\<rceil> - 1))))"

definition round_double :: "real \<Rightarrow> real" where
  "round_double x =
     (if x = 0 then 0
      else let a = \<bar>x\<bar>; u = pow2 (expo a - 52) in sgn x * real_of_int (rne (a / u)) * u)"

text \<open>
  \<^verbatim>\<open>float(m)\<close> for an integer, as the product of a float and an integer performs it:
  \<^verbatim>\<open>OverflowError\<close> from \<open>2 ^ 1024 - 2 ^ 970\<close> on, which would round to \<open>2 ^ 1024\<close>.
\<close>

definition float_of_int :: "int \<Rightarrow> exn + real" where
  "float_of_int m =
     (if 2 ^ 1024 - 2 ^ 970 \<le> \<bar>m\<bar> then Inl OverflowError
      else Inr (round_double (real_of_int m)))"

section \<open>The service: tables, configuration and environment\<close>

text \<open>
  The tables of \<^verbatim>\<open>app.py\<close>. \<^verbatim>\<open>bins\<close> and \<^verbatim>\<open>settings\<close> have a unique key column
  (\<^verbatim>\<open>name\<close>, \<^verbatim>\<open>key\<close>), so each is a map from that key to the rest of the row;
  \<^verbatim>\<open>readings\<close> and \<^verbatim>\<open>action_logs\<close> are only ever appended to, and are the lists of their
  rows in insertion order. The surrogate \<^verbatim>\<open>id\<close> columns are never read and are left out.
  \<^verbatim>\<open>last_alert_ts\<close> is a nullable float column (the code reads it with \<^verbatim>\<open>or 0\<close>);
  \<^verbatim>\<open>time.time()\<close> and the column are real numbers here, so subtraction is exact.
  A \<^verbatim>\<open>datetime\<close> is its number of microseconds since the epoch. The database is
  SQLite: an integer that is written to a column or bound as a limit must fit in 64 bits
  with sign, or the statement raises \<^verbatim>\<open>OverflowError\<close>.
\<close>

definition sqlite_int :: "int \<Rightarrow> bool" where
  "sqlite_int n = (- (2 ^ 63) \<le> n \<and> n < 2 ^ 63)"

record bin =
  last_alert_ts :: "real option"
  latest_level :: int

record reading =
  bin_name :: string
  level :: int
  ts :: int

record action_log =
  action_type :: string
  detail :: string
  log_ts :: int

text \<open>
  \<open>sms_calls\<close> is not a table: it records, in order, the arguments of every call of
  \<^verbatim>\<open>safe_send_sms\<close>, so that "a send was attempted" can be stated.
\<close>

record sys =
  bins_tbl :: "string \<rightharpoonup> bin"
  readings_tbl :: "reading list"
  settings_tbl :: "string \<rightharpoonup> string"
  action_logs_tbl :: "action_log list"
  sms_calls :: "(string \<times> int) list"

text \<open>The module-level configuration, read from the process environment at start-up.\<close>

record config =
  TWILIO_ACCOUNT_SID :: "string option"
  TWILIO_AUTH_TOKEN :: "string option"
  TWILIO_PHONE_NUMBER :: "string option"
  YOUR_PHONE_NUMBER :: "string option"
  ALERT_COOLDOWN_SECONDS :: int

text \<open>
  What one request reads from outside the program: the clock (\<^verbatim>\<open>time.time()\<close>, and
  \<^verbatim>\<open>datetime.utcnow()\<close> when a reading or an audit row is inserted) and the SMS provider,
  which answers a message (body, sender, recipient) with an error text or a message id.
\<close>

record env =
  time_time :: real
  reading_utcnow :: int
  action_utcnow :: int
  twilio :: "string \<Rightarrow> string \<Rightarrow> string \<Rightarrow> string + string"

datatype sms_result = Sent string | NotSent string

datatype body =
    ErrorBody string
  | UpdateBody string string int bool
  | ReadingsBody "(int \<times> int) list"
  | ConfigBody string bool "string list"
  | AlertSentBody string string
  | AlertFailedBody string string

definition valid_bins :: "string list" where
  "valid_bins = [''yellow'', ''green'', ''blue'']"

definition env_set :: "string option \<Rightarrow> bool" where
  "env_set v = (case v of None \<Rightarrow> False | Some x \<Rightarrow> x \<noteq> [])"

text \<open>
  \<^verbatim>\<open>safe_send_sms\<close>: without the four credentials nothing is sent; otherwise the provider is
  asked (both phone numbers are set in that branch), and an exception of the provider
  becomes a failure result. Every call is recorded in \<open>sms_calls\<close>.
\<close>

definition safe_send_sms :: "config \<Rightarrow> env \<Rightarrow> string \<Rightarrow> int \<Rightarrow> sys \<Rightarrow> sms_result \<times> sys" where
  "safe_send_sms cfg e name lvl s =
     (let s' = s\<lparr>sms_calls := sms_calls s @ [(name, lvl)]\<rparr> in
      if \<not> (env_set (TWILIO_ACCOUNT_SID cfg) \<and> env_set (TWILIO_AUTH_TOKEN cfg)
             \<and> env_set (TWILIO_PHONE_NUMBER cfg) \<and> env_set (YOUR_PHONE_NUMBER cfg))
      then (NotSent ''twilio_not_configured'', s')
      else
        let msg = ''Alert: '' @ capitalize name @ '' Bin is '' @ str_int lvl
                  @ ''% full. Please empty it soon.''
        in case twilio e msg (the (TWILIO_PHONE_NUMBER cfg)) (the (YOUR_PHONE_NUMBER cfg)) of
             Inr sid \<Rightarrow> (Sent sid, s')
           | Inl err \<Rightarrow> (NotSent err, s'))"

text \<open>
  \<^verbatim>\<open>log_action\<close> appends an audit row. (A failing database write, which the code catches
  and logs, is outside this model: the tables always accept a row.)
\<close>

definition log_action :: "env \<Rightarrow> string \<Rightarrow> string \<Rightarrow> sys \<Rightarrow> sys" where
  "log_action e a d s =
     s\<lparr>action_logs_tbl := action_logs_tbl s @ [\<lparr>action_type = a, detail = d, log_ts = action_utcnow e\<rparr>]\<rparr>"

definition get_setting :: "sys \<Rightarrow> string \<Rightarrow> string \<Rightarrow> string" where
  "get_setting s k dflt = (case settings_tbl s k of None \<Rightarrow> dflt | Some v \<Rightarrow> v)"

definition set_setting :: "string \<Rightarrow> string \<Rightarrow> sys \<Rightarrow> sys" where
  "set_setting k v s = s\<lparr>settings_tbl := (settings_tbl s)(k \<mapsto> v)\<rparr>"

section \<open>The endpoints\<close>

text \<open>
  \<^verbatim>\<open>request.get_json(force=True, silent=True) or {}\<close>: the request body is \<open>None\<close> when it
  is absent or does not parse; a falsy value is replaced by the empty object.
\<close>

definition get_json_or_empty :: "json option \<Rightarrow> json" where
  "get_json_or_empty payload = (case payload of None \<Rightarrow> JObj [] | Some j \<Rightarrow> py_or j (JObj []))"

text \<open>\<^verbatim>\<open>data.get(k)\<close>: only an object has the method.\<close>

fun dict_get :: "json \<Rightarrow> string \<Rightarrow> exn + json" where
  "dict_get (JObj kvs) k = Inr (case map_of kvs k of None \<Rightarrow> JNull | Some v \<Rightarrow> v)"
| "dict_get _ k = Inl AttributeError"

text \<open>
  Lines 144 to 150 of \<^verbatim>\<open>update_level\<close>: the level is read from the key \<^verbatim>\<open>level\<close>, or,
  when that is missing or null, from the key \<^verbatim>\<open>value\<close> (or 0); what \<^verbatim>\<open>int()\<close> rejects
  becomes 0.
\<close>

definition request_level :: "json \<Rightarrow> exn + int" where
  "request_level data =
     (case dict_get data ''level'' of
        Inl x \<Rightarrow> Inl x
      | Inr JNull \<Rightarrow>
          (case dict_get data ''value'' of
             Inl x \<Rightarrow> Inl x
           | Inr v \<Rightarrow> Inr (case py_int (py_or v (JInt 0)) of Inl _ \<Rightarrow> 0 | Inr n \<Rightarrow> n))
      | Inr l \<Rightarrow> Inr (case py_int l of Inl _ \<Rightarrow> 0 | Inr n \<Rightarrow> n))"

text \<open>\<^verbatim>\<open>b.last_alert_ts or 0\<close>\<close>

definition ts_or_0 :: "real option \<Rightarrow> real" where
  "ts_or_0 t = (case t of None \<Rightarrow> 0 | Some x \<Rightarrow> if x \<noteq> 0 then x else 0)"

text \<open>
  Lines 152 to 159 of \<^verbatim>\<open>update_level\<close>: the bin's row is fetched, or created with the
  column default 0.0 for \<^verbatim>\<open>last_alert_ts\<close>; its level is set and a reading is appended.
  The commit on line 159 writes the level to both tables: when the level does not fit the
  integer column it raises and the transaction is lost. Otherwise the result is the row
  \<^verbatim>\<open>b\<close> and the tables after the commit.
\<close>

definition store_level :: "env \<Rightarrow> string \<Rightarrow> int \<Rightarrow> sys \<Rightarrow> exn + bin \<times> sys" where
  "store_level e bin_color lvl s =
     (let b0 = (case bins_tbl s bin_color of
                  None \<Rightarrow> \<lparr>last_alert_ts = Some 0, latest_level = lvl\<rparr>
                | Some r \<Rightarrow> r);
          b = b0\<lparr>latest_level := lvl\<rparr>
      in if \<not> sqlite_int lvl then Inl OverflowError
         else Inr (b, s\<lparr>bins_tbl := (bins_tbl s)(bin_color \<mapsto> b),
                       readings_tbl := readings_tbl s
                         @ [\<lparr>bin_name = bin_color, level = lvl, ts = reading_utcnow e\<rparr>]\<rparr>))"

text \<open>
  \<^verbatim>\<open>update_level\<close>. An unhandled exception is the result \<open>Inl\<close>; it leaves the tables
  as they were.
\<close>

definition update_level ::
  "config \<Rightarrow> env \<Rightarrow> string \<Rightarrow> json option \<Rightarrow> sys \<Rightarrow> (exn + nat \<times> body) \<times> sys" where
  "update_level cfg e bin_color payload s =
     (if bin_color \<notin> set valid_bins then (Inr (400, ErrorBody ''invalid bin''), s)
      else case request_level (get_json_or_empty payload) of
        Inl x \<Rightarrow> (Inl x, s)
      | Inr lvl \<Rightarrow>
          (case store_level e bin_color lvl s of
             Inl x \<Rightarrow> (Inl x, s)
           | Inr (b, s1) \<Rightarrow>
            if 80 \<le> lvl \<and> real_of_int (ALERT_COOLDOWN_SECONDS cfg) \<le> time_time e - ts_or_0 (last_alert_ts b)
            then
              (case safe_send_sms cfg e bin_color lvl s1 of
                 (Sent sid, s2) \<Rightarrow>
                   (Inr (200, UpdateBody ''success'' bin_color lvl True),
                    log_action e ''auto_alert_sent''
                      (bin_color @ '' level='' @ str_int lvl @ '' sid='' @ sid)
                      (s2\<lparr>bins_tbl := (bins_tbl s2)(bin_color \<mapsto> b\<lparr>last_alert_ts := Some (time_time e)\<rparr>)\<rparr>))
               | (NotSent err, s2) \<Rightarrow>
                   (Inr (200, UpdateBody ''success'' bin_color lvl False),
                    log_action e ''auto_alert_failed''
                      (bin_color @ '' level='' @ str_int lvl @ '' error='' @ err) s2))
            else (Inr (200, UpdateBody ''success'' bin_color lvl False), s1)))"

text \<open>
  \<^verbatim>\<open>trigger_alert\<close>. The clock is read after the send, and only when it succeeded.
\<close>

definition trigger_alert :: "config \<Rightarrow> env \<Rightarrow> string \<Rightarrow> sys \<Rightarrow> (nat \<times> body) \<times> sys" where
  "trigger_alert cfg e bin_color s =
     (if bin_color \<notin> set valid_bins then ((400, ErrorBody ''invalid bin''), s)
      else case bins_tbl s bin_color of
        None \<Rightarrow> ((404, ErrorBody ''bin not found''), s)
      | Some b \<Rightarrow>
          (case safe_send_sms cfg e bin_color (latest_level b) s of
             (Sent sid, s1) \<Rightarrow>
               ((200, AlertSentBody ''alert_sent'' sid),
                log_action e ''manual_alert_sent''
                  (bin_color @ '' level='' @ str_int (latest_level b) @ '' sid='' @ sid)
                  (s1\<lparr>bins_tbl := (bins_tbl s1)(bin_color \<mapsto> b\<lparr>last_alert_ts := Some (time_time e)\<rparr>)\<rparr>))
           | (NotSent err, s1) \<Rightarrow>
               ((500, AlertFailedBody ''alert_failed'' err),
                log_action e ''manual_alert_failed''
                  (bin_color @ '' level='' @ str_int (latest_level b) @ '' error='' @ err) s1)))"

text \<open>
  \<^verbatim>\<open>readings\<close>. \<^verbatim>\<open>order_by(Reading.ts.desc())\<close> is a sort by descending timestamp that
  leaves rows with equal timestamps in the order of their insertion, and \<^verbatim>\<open>limit(n)\<close>
  keeps the first \<open>n\<close> rows, or all of them when \<open>n\<close> is negative, as SQLite does; a limit
  that does not fit in 64 bits raises. The query argument \<^verbatim>\<open>n\<close> is a string when
  present. In the response a reading is the pair of its level and its timestamp.
\<close>

definition order_by_ts_desc :: "reading list \<Rightarrow> reading list" where
  "order_by_ts_desc rs = sort_key (\<lambda>r. - ts r) rs"

definition sql_limit :: "int \<Rightarrow> 'a list \<Rightarrow> exn + 'a list" where
  "sql_limit n xs =
     (if \<not> sqlite_int n then Inl OverflowError
      else if n < 0 then Inr xs
      else Inr (take (nat n) xs))"

definition readings :: "string \<Rightarrow> string option \<Rightarrow> sys \<Rightarrow> exn + nat \<times> body" where
  "readings bin_color n_arg s =
     (if bin_color \<notin> set valid_bins then Inr (400, ErrorBody ''invalid bin'')
      else case (case n_arg of None \<Rightarrow> Inr 100 | Some a \<Rightarrow> py_int (JStr a)) of
        Inl x \<Rightarrow> Inl x
      | Inr last_n \<Rightarrow>
          (case sql_limit last_n
                  (order_by_ts_desc (filter (\<lambda>r. bin_name r = bin_color) (readings_tbl s))) of
             Inl x \<Rightarrow> Inl x
           | Inr q \<Rightarrow> Inr (200, ReadingsBody (map (\<lambda>r. (level r, ts r)) (rev q)))))"

text \<open>
  \<^verbatim>\<open>patch_config\<close>. \<^verbatim>\<open>k in data\<close> is key membership for an object, element membership
  for an array and a substring test for a string; \<^verbatim>\<open>data[k]\<close> with a string \<open>k\<close> is
  defined for an object only.
\<close>

fun is_substring :: "string \<Rightarrow> string \<Rightarrow> bool" where
  "is_substring k [] = (k = [])"
| "is_substring k (c # cs) = (take (length k) (c # cs) = k \<or> is_substring k cs)"

fun json_contains :: "json \<Rightarrow> string \<Rightarrow> exn + bool" where
  "json_contains (JObj kvs) k = Inr (map_of kvs k \<noteq> None)"
| "json_contains (JArr xs) k = Inr (JStr k \<in> set xs)"
| "json_contains (JStr t) k = Inr (is_substring k t)"
| "json_contains _ k = Inl TypeError"

fun json_subscript :: "json \<Rightarrow> string \<Rightarrow> exn + json" where
  "json_subscript (JObj kvs) k = (case map_of kvs k of None \<Rightarrow> Inl KeyError | Some v \<Rightarrow> Inr v)"
| "json_subscript _ k = Inl TypeError"

definition patch_config :: "env \<Rightarrow> json option \<Rightarrow> sys \<Rightarrow> (exn + nat \<times> body) \<times> sys" where
  "patch_config e payload s =
     (let data = get_json_or_empty payload in
      case json_contains data ''simulator_paused'' of
        Inl x \<Rightarrow> (Inl x, s)
      | Inr False \<Rightarrow>
          (Inr (200, ConfigBody ''ok'' (get_setting s ''simulator_paused'' ''false'' = ''true'') []), s)
      | Inr True \<Rightarrow>
          (case json_subscript data ''simulator_paused'' of
             Inl x \<Rightarrow> (Inl x, s)
           | Inr v \<Rightarrow>
               let val = truthy v;
                   s1 = set_setting ''simulator_paused'' (lower (str_bool val)) s;
                   s2 = log_action e ''simulator_paused_toggled'' (''paused='' @ str_bool val) s1
               in (Inr (200, ConfigBody ''ok''
                          (get_setting s2 ''simulator_paused'' ''false'' = ''true'')
                          [''simulator_paused='' @ str_bool val]), s2)))"

section \<open>The simulator's level generator\<close>

text \<open>
  \<^verbatim>\<open>sensor_simulator.py\<close> keeps two module-level dictionaries; \<^verbatim>\<open>last_levels\<close> maps a
  bin to \<^verbatim>\<open>None\<close> or to its last level. The random module is a source of draws that
  each call consumes one of: \<^verbatim>\<open>random.random()\<close> returns the next real draw (any real
  here; Python's is a double in the unit interval), and \<^verbatim>\<open>random.randint(a, b)\<close> with
  \<open>a \<le> b\<close> maps the next natural draw into \<open>a..b\<close>, every value of which can be hit.
  The constants are decimal literals, hence the doubles nearest to them.
\<close>

record sim =
  last_levels :: "string \<rightharpoonup> int option"
  full_counts :: "string \<rightharpoonup> int"

record rng =
  rng_floats :: "nat \<Rightarrow> real"
  rng_ints :: "nat \<Rightarrow> nat"
  rng_pos :: nat

definition random_random :: "rng \<Rightarrow> real \<times> rng" where
  "random_random g = (rng_floats g (rng_pos g), g\<lparr>rng_pos := Suc (rng_pos g)\<rparr>)"

definition random_randint :: "int \<Rightarrow> int \<Rightarrow> rng \<Rightarrow> int \<times> rng" where
  "random_randint a b g =
     (a + int (rng_ints g (rng_pos g) mod nat (b - a + 1)), g\<lparr>rng_pos := Suc (rng_pos g)\<rparr>)"

definition P_BIG_JUMP :: real where
  "P_BIG_JUMP = round_double 0.12"

definition P_SMALL_DECREASE :: real where
  "P_SMALL_DECREASE = round_double 0.12"

definition P_EMPTY_WHEN_FULL :: real where
  "P_EMPTY_WHEN_FULL = round_double 0.25"

definition FULL_COUNT_BEFORE_EMPTY :: int where
  "FULL_COUNT_BEFORE_EMPTY = 2"

definition OCCASIONAL_EMPTY_PROB :: real where
  "OCCASIONAL_EMPTY_PROB = round_double 0.02"

text \<open>
  The local \<^verbatim>\<open>empty_chance\<close> of line 58, as a function of the incremented counter: the
  integer \<^verbatim>\<open>max(0, full_counts[name] - FULL_COUNT_BEFORE_EMPTY)\<close> is converted to a float,
  multiplied by the literal 0.15 and added to the base chance, each step rounded.
\<close>

definition empty_chance :: "int \<Rightarrow> exn + real" where
  "empty_chance fc =
     (case float_of_int (max 0 (fc - FULL_COUNT_BEFORE_EMPTY)) of
        Inl x \<Rightarrow> Inl x
      | Inr m \<Rightarrow> Inr (round_double (P_EMPTY_WHEN_FULL + round_double (round_double 0.15 * m))))"

text \<open>
  The test on line 59 compares the threshold with a draw from the unit interval. The draws
  below a threshold \<open>t\<close> are those from 0 up to \<open>min 1 (max 0 t)\<close>, and the length of that
  interval is the probability that a uniform draw passes the test.
\<close>

definition empty_prob :: "real \<Rightarrow> real" where
  "empty_prob t = min 1 (max 0 t)"

text \<open>
  Lines 54 to 65: the decision to empty. The result is the flag \<^verbatim>\<open>will_empty\<close>, the value
  now stored in \<^verbatim>\<open>full_counts[name]\<close>, and the rest of the random source.
  \<^verbatim>\<open>full_counts[name] += 1\<close> raises when the key is missing, and the computation of
  the chance raises when the counter is too large for a float.
\<close>

definition decide_empty :: "int \<Rightarrow> int option \<Rightarrow> rng \<Rightarrow> exn + (bool \<times> int \<times> rng)" where
  "decide_empty prev cnt g =
     (if 90 \<le> prev then
        (case cnt of
           None \<Rightarrow> Inl KeyError
         | Some c \<Rightarrow>
             (case empty_chance (c + 1) of
                Inl x \<Rightarrow> Inl x
              | Inr t \<Rightarrow> (let (u, g1) = random_random g in Inr (u < t, c + 1, g1))))
      else (let (u, g1) = random_random g in Inr (u < OCCASIONAL_EMPTY_PROB, 0, g1)))"

text \<open>Lines 75 to 84: the event draw and the change of level it selects.\<close>

definition draw_delta :: "rng \<Rightarrow> int \<times> rng" where
  "draw_delta g =
     (let (r, g1) = random_random g in
      if r < P_BIG_JUMP then random_randint 10 30 g1
      else if r < round_double (P_BIG_JUMP + P_SMALL_DECREASE)
        then (let (d, g2) = random_randint 2 8 g1 in (- d, g2))
      else random_randint 1 8 g1)"

text \<open>
  \<^verbatim>\<open>generate_next_level\<close>. All writes to \<^verbatim>\<open>full_counts\<close> are to the key \<open>name\<close>, so the
  dictionary after the call is the one before with the last value written there. When the
  call raises, the result is the exception and the dictionaries it leaves behind: a missing
  counter leaves them untouched, a counter too large for a float has been incremented
  before the chance is computed.
\<close>

definition generate_next_level ::
  "string \<Rightarrow> sim \<Rightarrow> rng \<Rightarrow> (exn \<times> sim) + (int \<times> sim \<times> rng)" where
  "generate_next_level name st g =
     (case (case last_levels st name of None \<Rightarrow> None | Some v \<Rightarrow> v) of
        None \<Rightarrow>
          (let (new, g1) = random_randint 10 35 g in
           Inr (new,
                st\<lparr>last_levels := (last_levels st)(name \<mapsto> Some new),
                   full_counts := (full_counts st)(name \<mapsto> (if 90 \<le> new then 1 else 0))\<rparr>,
                g1))
      | Some prev \<Rightarrow>
          (case decide_empty prev (full_counts st name) g of
             Inl x \<Rightarrow>
               Inl (x, (case full_counts st name of
                          None \<Rightarrow> st
                        | Some c \<Rightarrow> st\<lparr>full_counts := (full_counts st)(name \<mapsto> c + 1)\<rparr>))
           | Inr (will_empty, c, g1) \<Rightarrow>
               if will_empty then
                 (let (new, g2) = random_randint 0 18 g1 in
                  Inr (new,
                       st\<lparr>last_levels := (last_levels st)(name \<mapsto> Some new),
                          full_counts := (full_counts st)(name \<mapsto> 0)\<rparr>,
                       g2))
               else
                 (let (delta, g2) = draw_delta g1;
                      new = max 0 (min 100 (prev + delta))
                  in Inr (new,
                          st\<lparr>last_levels := (last_levels st)(name \<mapsto> Some new),
                             full_counts := (full_counts st)(name \<mapsto> (if 90 \<le> new then c + 1 else 0))\<rparr>,
                          g2))))"

section \<open>Start-up state and sample surroundings\<close>

text \<open>
  The tables after \<^verbatim>\<open>db.create_all()\<close>, and \<^verbatim>\<open>init_bins_if_needed\<close>, which adds the
  three default bins with the column defaults.
\<close>

definition empty_sys :: sys where
  "empty_sys = \<lparr>bins_tbl = Map.empty, readings_tbl = [], settings_tbl = Map.empty,
                action_logs_tbl = [], sms_calls = []\<rparr>"

definition init_bins_if_needed :: "sys \<Rightarrow> sys" where
  "init_bins_if_needed s =
     s\<lparr>bins_tbl :=
         fold (\<lambda>name m. case m name of
                          None \<Rightarrow> m(name \<mapsto> \<lparr>last_alert_ts = Some 0, latest_level = 0\<rparr>)
                        | Some _ \<Rightarrow> m)
              valid_bins (bins_tbl s)\<rparr>"

text \<open>
  The configuration when no environment variable is set (no credentials, a cooldown of 60
  seconds), and one with credentials.
\<close>

definition default_config :: config where
  "default_config = \<lparr>TWILIO_ACCOUNT_SID = None, TWILIO_AUTH_TOKEN = None,
                     TWILIO_PHONE_NUMBER = None, YOUR_PHONE_NUMBER = None,
                     ALERT_COOLDOWN_SECONDS = 60\<rparr>"

definition twilio_config :: config where
  "twilio_config = \<lparr>TWILIO_ACCOUNT_SID = Some ''AC1'', TWILIO_AUTH_TOKEN = Some ''tok'',
                    TWILIO_PHONE_NUMBER = Some ''+10000000001'', YOUR_PHONE_NUMBER = Some ''+10000000002'',
                    ALERT_COOLDOWN_SECONDS = 60\<rparr>"

text \<open>A moment at which the provider accepts every message, and one at which it refuses.\<close>

definition env_ok :: "real \<Rightarrow> env" where
  "env_ok t = \<lparr>time_time = t, reading_utcnow = 1, action_utcnow = 2,
              twilio = (\<lambda>msg frm to. Inr ''SM1'')\<rparr>"

definition env_down :: "real \<Rightarrow> env" where
  "env_down t = \<lparr>time_time = t, reading_utcnow = 1, action_utcnow = 2,
                twilio = (\<lambda>msg frm to. Inl ''unreachable'')\<rparr>"

text \<open>The level that the alert rule compares \<^verbatim>\<open>time.time()\<close> with: the bin's
  \<^verbatim>\<open>last_alert_ts\<close>, or 0 when the row is new or the column is unset.\<close>

definition last_alert_of :: "sys \<Rightarrow> string \<Rightarrow> real" where
  "last_alert_of s bin_color =
     (case bins_tbl s bin_color of None \<Rightarrow> 0 | Some b \<Rightarrow> ts_or_0 (last_alert_ts b))"

text \<open>
  Tables with four readings, stored out of chronological order, for the readings
  endpoint.
\<close>

definition sample_readings :: sys where
  "sample_readings =
     empty_sys\<lparr>readings_tbl :=
       [\<lparr>bin_name = ''yellow'', level = 20, ts = 10\<rparr>,
        \<lparr>bin_name = ''green'', level = 55, ts = 20\<rparr>,
        \<lparr>bin_name = ''yellow'', level = 90, ts = 40\<rparr>,
        \<lparr>bin_name = ''yellow'', level = 40, ts = 30\<rparr>]\<rparr>"

text \<open>
  The simulator's dictionaries when the module is loaded, a later state in which yellow
  has been full for a while, and a random source with constant draws.
\<close>

definition initial_sim :: sim where
  "initial_sim =
     \<lparr>last_levels = [''yellow'' \<mapsto> None, ''green'' \<mapsto> None, ''blue'' \<mapsto> None],
      full_counts = [''yellow'' \<mapsto> 0, ''green'' \<mapsto> 0, ''blue'' \<mapsto> 0]\<rparr>"

definition sample_sim :: sim where
  "sample_sim =
     \<lparr>last_levels = [''yellow'' \<mapsto> Some 95, ''green'' \<mapsto> Some 40, ''blue'' \<mapsto> None],
      full_counts = [''yellow'' \<mapsto> 3, ''green'' \<mapsto> 0, ''blue'' \<mapsto> 0]\<rparr>"

definition sample_rng :: rng where
  "sample_rng = \<lparr>rng_floats = (\<lambda>i. 0.9), rng_ints = (\<lambda>i. 5), rng_pos = 0\<rparr>"


text \<open>
  The two dictionaries go together: a bin with a known last level has a streak counter.
\<close>

definition sim_ok :: "sim \<Rightarrow> bool" where
  "sim_ok st = (\<forall>name prev. last_levels st name = Some (Some prev) \<longrightarrow> full_counts st name \<noteq> None)"

section \<open>Facts about the helpers\<close>

lemma safe_send_sms_snd:
  "snd (safe_send_sms cfg e n l s) = s\<lparr>sms_calls := sms_calls s @ [(n, l)]\<rparr>"
  by (simp add: safe_send_sms_def Let_def split: sum.splits)

lemma safe_send_sms_fst:
  "fst (safe_send_sms cfg e n l s') = fst (safe_send_sms cfg e n l s)"
  by (simp add: safe_send_sms_def Let_def split: sum.splits)

lemma safe_send_sms_pair:
  "safe_send_sms cfg e n l s =
     (fst (safe_send_sms cfg e n l s0), s\<lparr>sms_calls := sms_calls s @ [(n, l)]\<rparr>)"
  using safe_send_sms_snd[of cfg e n l s] safe_send_sms_fst[of cfg e n l s s0]
  by (metis prod.collapse)

lemma store_level_overflow:
  "\<not> sqlite_int lvl \<Longrightarrow> store_level e c lvl s = Inl OverflowError"
  by (simp add: store_level_def Let_def)

lemma store_level_ok:
  assumes "sqlite_int lvl"
  shows "\<exists>b. store_level e c lvl s =
               Inr (b, s\<lparr>bins_tbl := (bins_tbl s)(c \<mapsto> b),
                          readings_tbl := readings_tbl s
                            @ [\<lparr>bin_name = c, level = lvl, ts = reading_utcnow e\<rparr>]\<rparr>)
           \<and> latest_level b = lvl
           \<and> last_alert_ts b = (case bins_tbl s c of None \<Rightarrow> Some 0 | Some r \<Rightarrow> last_alert_ts r)
           \<and> ts_or_0 (last_alert_ts b) = last_alert_of s c"
  using assms
  by (simp add: store_level_def last_alert_of_def ts_or_0_def Let_def split: option.splits)

text \<open>
  What \<^verbatim>\<open>update_level\<close> does with a level that fits the integer column: the row \<open>b\<close> and
  the reading are stored, and the alert rule decides about the notifier.
\<close>

lemma update_level_in_range:
  assumes "bin_color \<in> set valid_bins"
      and "request_level (get_json_or_empty payload) = Inr lvl"
      and "sqlite_int lvl"
  shows "\<exists>b s1.
           s1 = s\<lparr>bins_tbl := (bins_tbl s)(bin_color \<mapsto> b),
                   readings_tbl := readings_tbl s
                     @ [\<lparr>bin_name = bin_color, level = lvl, ts = reading_utcnow e\<rparr>]\<rparr>
         \<and> latest_level b = lvl
         \<and> last_alert_ts b = (case bins_tbl s bin_color of None \<Rightarrow> Some 0 | Some r \<Rightarrow> last_alert_ts r)
         \<and> update_level cfg e bin_color payload s =
             (if 80 \<le> lvl
                 \<and> real_of_int (ALERT_COOLDOWN_SECONDS cfg) \<le> time_time e - last_alert_of s bin_color
              then (case fst (safe_send_sms cfg e bin_color lvl s) of
                      Sent sid \<Rightarrow>
                        (Inr (200, UpdateBody ''success'' bin_color lvl True),
                         log_action e ''auto_alert_sent''
                           (bin_color @ '' level='' @ str_int lvl @ '' sid='' @ sid)
                           (s1\<lparr>sms_calls := sms_calls s @ [(bin_color, lvl)],
                               bins_tbl := (bins_tbl s)(bin_color \<mapsto> b\<lparr>last_alert_ts := Some (time_time e)\<rparr>)\<rparr>))
                    | NotSent err \<Rightarrow>
                        (Inr (200, UpdateBody ''success'' bin_color lvl False),
                         log_action e ''auto_alert_failed''
                           (bin_color @ '' level='' @ str_int lvl @ '' error='' @ err)
                           (s1\<lparr>sms_calls := sms_calls s @ [(bin_color, lvl)]\<rparr>)))
              else (Inr (200, UpdateBody ''success'' bin_color lvl False), s1))"
proof -
  obtain b where st: "store_level e bin_color lvl s =
               Inr (b, s\<lparr>bins_tbl := (bins_tbl s)(bin_color \<mapsto> b),
                          readings_tbl := readings_tbl s
                            @ [\<lparr>bin_name = bin_color, level = lvl, ts = reading_utcnow e\<rparr>]\<rparr>)"
      and bl: "latest_level b = lvl"
      and bt: "last_alert_ts b = (case bins_tbl s bin_color of None \<Rightarrow> Some 0 | Some r \<Rightarrow> last_alert_ts r)"
      and b0: "ts_or_0 (last_alert_ts b) = last_alert_of s bin_color"
    using store_level_ok[OF assms(3), of e bin_color s] by blast
  let ?s1 = "s\<lparr>bins_tbl := (bins_tbl s)(bin_color \<mapsto> b),
                 readings_tbl := readings_tbl s
                   @ [\<lparr>bin_name = bin_color, level = lvl, ts = reading_utcnow e\<rparr>]\<rparr>"
  have send: "safe_send_sms cfg e bin_color lvl ?s1 =
                (fst (safe_send_sms cfg e bin_color lvl s),
                 ?s1\<lparr>sms_calls := sms_calls ?s1 @ [(bin_color, lvl)]\<rparr>)"
    by (rule safe_send_sms_pair)
  have "update_level cfg e bin_color payload s =
             (if 80 \<le> lvl
                 \<and> real_of_int (ALERT_COOLDOWN_SECONDS cfg) \<le> time_time e - last_alert_of s bin_color
              then (case fst (safe_send_sms cfg e bin_color lvl s) of
                      Sent sid \<Rightarrow>
                        (Inr (200, UpdateBody ''success'' bin_color lvl True),
                         log_action e ''auto_alert_sent''
                           (bin_color @ '' level='' @ str_int lvl @ '' sid='' @ sid)
                           (?s1\<lparr>sms_calls := sms_calls s @ [(bin_color, lvl)],
                               bins_tbl := (bins_tbl s)(bin_color \<mapsto> b\<lparr>last_alert_ts := Some (time_time e)\<rparr>)\<rparr>))
                    | NotSent err \<Rightarrow>
                        (Inr (200, UpdateBody ''success'' bin_color lvl False),
                         log_action e ''auto_alert_failed''
                           (bin_color @ '' level='' @ str_int lvl @ '' error='' @ err)
                           (?s1\<lparr>sms_calls := sms_calls s @ [(bin_color, lvl)]\<rparr>)))
              else (Inr (200, UpdateBody ''success'' bin_color lvl False), ?s1))"
    using assms(1,2)
    by (simp add: update_level_def st b0 send split: sms_result.splits)
  then show ?thesis
    using bl bt by blast
qed

lemma update_level_overflow:
  assumes "bin_color \<in> set valid_bins"
      and "request_level (get_json_or_empty payload) = Inr lvl"
      and "\<not> sqlite_int lvl"
  shows "update_level cfg e bin_color payload s = (Inl OverflowError, s)"
  using assms by (simp add: update_level_def store_level_overflow)

lemma request_level_int:
  "map_of kvs ''level'' = Some (JInt n) \<Longrightarrow>
     request_level (get_json_or_empty (Some (JObj kvs))) = Inr n"
  by (cases kvs) (auto simp add: request_level_def get_json_or_empty_def py_or_def)

lemma sample_payload_level:
  "request_level (get_json_or_empty (Some (JObj [(''level'', JInt n)]))) = Inr n"
  by (rule request_level_int) simp

lemma yellow_valid: "''yellow'' \<in> set valid_bins"
  by (simp add: valid_bins_def)

lemma last_alert_of_init: "last_alert_of (init_bins_if_needed empty_sys) ''yellow'' = 0"
  by (simp add: last_alert_of_def init_bins_if_needed_def empty_sys_def valid_bins_def ts_or_0_def)

lemma sample_cooldown:
  "ALERT_COOLDOWN_SECONDS default_config = 60" "ALERT_COOLDOWN_SECONDS twilio_config = 60"
  by (simp_all add: default_config_def twilio_config_def)

lemma sample_time: "time_time (env_ok t) = t" "time_time (env_down t) = t"
  by (simp_all add: env_ok_def env_down_def)

lemma sample_levels_fit: "sqlite_int 0" "sqlite_int 85" "sqlite_int 150" "sqlite_int (- 5)"
  by (simp_all add: sqlite_int_def)

lemma sample_level_too_large: "\<not> sqlite_int 9223372036854775808"
  by (simp add: sqlite_int_def)

text \<open>
  The payloads that the endpoint forgives: no body (or one that does not parse), an object
  with neither \<^verbatim>\<open>level\<close> nor \<^verbatim>\<open>value\<close>, and a level that \<^verbatim>\<open>int()\<close> rejects all
  give the level 0.
\<close>

lemma request_level_absent: "request_level (get_json_or_empty None) = Inr 0"
  by (simp add: request_level_def get_json_or_empty_def py_or_def)

lemma request_level_no_keys:
  "map_of kvs ''level'' = None \<Longrightarrow> map_of kvs ''value'' = None \<Longrightarrow>
     request_level (JObj kvs) = Inr 0"
  by (simp add: request_level_def py_or_def)

lemma request_level_not_coercible:
  "map_of kvs ''level'' = Some v \<Longrightarrow> v \<noteq> JNull \<Longrightarrow> py_int v = Inl x \<Longrightarrow>
     request_level (JObj kvs) = Inr 0"
  by (cases v) (simp_all add: request_level_def)

lemma update_level_absent_payload:
  assumes "bin_color \<in> set valid_bins"
  shows "fst (update_level cfg e bin_color None s)
           = Inr (200, UpdateBody ''success'' bin_color 0 False)
       \<and> readings_tbl (snd (update_level cfg e bin_color None s))
           = readings_tbl s @ [\<lparr>bin_name = bin_color, level = 0, ts = reading_utcnow e\<rparr>]"
  using update_level_in_range[OF assms request_level_absent sample_levels_fit(1), of s e cfg]
  by auto

section \<open>Ingestion: what level is stored\<close>

text \<open>
  Claim C1 says that the stored and echoed level is clamped to the range from 0 to 100.
  The endpoint has no clamp: a request with level 150 for the bin yellow is answered with
  level 150, and 150 is what the bin's row and the new reading hold; level -5 is stored as
  -5 in the same way. A level that does not fit the database's integer column is not
  stored at all: the request fails at the commit.
\<close>

theorem update_level_clamp_counterexample:
  "fst (update_level default_config (env_ok 0) ''yellow''
          (Some (JObj [(''level'', JInt 150)])) (init_bins_if_needed empty_sys))
     = Inr (200, UpdateBody ''success'' ''yellow'' 150 False)
   \<and> map_option latest_level
        (bins_tbl (snd (update_level default_config (env_ok 0) ''yellow''
          (Some (JObj [(''level'', JInt 150)])) (init_bins_if_needed empty_sys))) ''yellow'')
     = Some 150
   \<and> map level
        (readings_tbl (snd (update_level default_config (env_ok 0) ''yellow''
          (Some (JObj [(''level'', JInt 150)])) (init_bins_if_needed empty_sys))))
     = [150]
   \<and> \<not> (150 :: int) \<le> 100
   \<and> fst (update_level default_config (env_ok 0) ''yellow''
          (Some (JObj [(''level'', JInt (- 5))])) (init_bins_if_needed empty_sys))
     = Inr (200, UpdateBody ''success'' ''yellow'' (- 5) False)
   \<and> \<not> (0 :: int) \<le> - 5
   \<and> update_level default_config (env_ok 0) ''yellow''
          (Some (JObj [(''level'', JInt 9223372036854775808)])) (init_bins_if_needed empty_sys)
     = (Inl OverflowError, init_bins_if_needed empty_sys)"
  by (simp add: update_level_def store_level_def sqlite_int_def valid_bins_def
      get_json_or_empty_def py_or_def request_level_def default_config_def env_ok_def
      init_bins_if_needed_def empty_sys_def ts_or_0_def Let_def)

text \<open>
  Claim C1, amended: for a valid bin and a payload that yields the coerced level \<open>lvl\<close>
  (which is \<open>n\<close> when the payload is an object whose \<^verbatim>\<open>level\<close> is the integer \<open>n\<close>), if
  \<open>lvl\<close> fits the database's signed 64-bit integer column then the level echoed in the
  response, the level in the bin's row and the level of the appended reading are all
  \<open>lvl\<close> itself, unclamped, so that they lie between 0 and 100 exactly when \<open>lvl\<close> does;
  if it does not fit, the request fails with the overflow error of the commit and the tables
  are unchanged.
\<close>

theorem update_level_stores_level_unclamped:
  assumes "bin_color \<in> set valid_bins"
      and "request_level (get_json_or_empty payload) = Inr lvl"
  shows "(if sqlite_int lvl
          then (\<exists>sent. fst (update_level cfg e bin_color payload s)
                          = Inr (200, UpdateBody ''success'' bin_color lvl sent))
             \<and> map_option latest_level
                  (bins_tbl (snd (update_level cfg e bin_color payload s)) bin_color) = Some lvl
             \<and> readings_tbl (snd (update_level cfg e bin_color payload s))
                 = readings_tbl s @ [\<lparr>bin_name = bin_color, level = lvl, ts = reading_utcnow e\<rparr>]
          else update_level cfg e bin_color payload s = (Inl OverflowError, s))
       \<and> (\<forall>kvs n. payload = Some (JObj kvs) \<and> map_of kvs ''level'' = Some (JInt n) \<longrightarrow> lvl = n)"
proof -
  have ints: "\<forall>kvs n. payload = Some (JObj kvs) \<and> map_of kvs ''level'' = Some (JInt n) \<longrightarrow> lvl = n"
    using assms(2) request_level_int by fastforce
  show ?thesis
  proof (cases "sqlite_int lvl")
    case True
    obtain b s1 where s1: "s1 = s\<lparr>bins_tbl := (bins_tbl s)(bin_color \<mapsto> b),
                   readings_tbl := readings_tbl s
                     @ [\<lparr>bin_name = bin_color, level = lvl, ts = reading_utcnow e\<rparr>]\<rparr>"
        and bl: "latest_level b = lvl"
        and upd: "update_level cfg e bin_color payload s =
             (if 80 \<le> lvl
                 \<and> real_of_int (ALERT_COOLDOWN_SECONDS cfg) \<le> time_time e - last_alert_of s bin_color
              then (case fst (safe_send_sms cfg e bin_color lvl s) of
                      Sent sid \<Rightarrow>
                        (Inr (200, UpdateBody ''success'' bin_color lvl True),
                         log_action e ''auto_alert_sent''
                           (bin_color @ '' level='' @ str_int lvl @ '' sid='' @ sid)
                           (s1\<lparr>sms_calls := sms_calls s @ [(bin_color, lvl)],
                               bins_tbl := (bins_tbl s)(bin_color \<mapsto> b\<lparr>last_alert_ts := Some (time_time e)\<rparr>)\<rparr>))
                    | NotSent err \<Rightarrow>
                        (Inr (200, UpdateBody ''success'' bin_color lvl False),
                         log_action e ''auto_alert_failed''
                           (bin_color @ '' level='' @ str_int lvl @ '' error='' @ err)
                           (s1\<lparr>sms_calls := sms_calls s @ [(bin_color, lvl)]\<rparr>)))
              else (Inr (200, UpdateBody ''success'' bin_color lvl False), s1))"
      using update_level_in_range[OF assms True, of s e cfg] by blast
    have "(\<exists>sent. fst (update_level cfg e bin_color payload s)
                          = Inr (200, UpdateBody ''success'' bin_color lvl sent))
             \<and> map_option latest_level
                  (bins_tbl (snd (update_level cfg e bin_color payload s)) bin_color) = Some lvl
             \<and> readings_tbl (snd (update_level cfg e bin_color payload s))
                 = readings_tbl s @ [\<lparr>bin_name = bin_color, level = lvl, ts = reading_utcnow e\<rparr>]"
      unfolding upd
      by (auto simp add: s1 bl log_action_def split: sms_result.splits)
    then show ?thesis
      using True ints by simp
  next
    case False
    then show ?thesis
      using update_level_overflow[OF assms False] ints by simp
  qed
qed

text \<open>
  The amended claim C1 at the level 150 on the start-up tables, and at a level one beyond
  the largest that the column holds.
\<close>

theorem update_level_stores_level_unclamped_witness:
  "''yellow'' \<in> set valid_bins
   \<and> request_level (get_json_or_empty (Some (JObj [(''level'', JInt 150)]))) = Inr 150
   \<and> sqlite_int 150
   \<and> map_option latest_level
        (bins_tbl (snd (update_level default_config (env_ok 0) ''yellow''
           (Some (JObj [(''level'', JInt 150)])) (init_bins_if_needed empty_sys))) ''yellow'')
       = Some 150
   \<and> readings_tbl (snd (update_level default_config (env_ok 0) ''yellow''
           (Some (JObj [(''level'', JInt 150)])) (init_bins_if_needed empty_sys)))
       = [\<lparr>bin_name = ''yellow'', level = 150, ts = 1\<rparr>]
   \<and> request_level (get_json_or_empty (Some (JObj [(''level'', JInt 9223372036854775808)])))
       = Inr 9223372036854775808
   \<and> update_level default_config (env_ok 0) ''yellow''
        (Some (JObj [(''level'', JInt 9223372036854775808)])) (init_bins_if_needed empty_sys)
       = (Inl OverflowError, init_bins_if_needed empty_sys)"
proof -
  have h1: "''yellow'' \<in> set valid_bins"
    by (rule yellow_valid)
  have h2: "request_level (get_json_or_empty (Some (JObj [(''level'', JInt 150)]))) = Inr 150"
    by (rule sample_payload_level)
  have h3: "request_level (get_json_or_empty (Some (JObj [(''level'', JInt 9223372036854775808)])))
              = Inr 9223372036854775808"
    by (rule sample_payload_level)
  have r0: "readings_tbl (init_bins_if_needed empty_sys) = []"
    by (simp add: init_bins_if_needed_def empty_sys_def)
  have t0: "reading_utcnow (env_ok 0) = 1"
    by (simp add: env_ok_def)
  show ?thesis
    using h1 h2 h3
      update_level_stores_level_unclamped[OF h1 h2, of default_config "env_ok 0"
        "init_bins_if_needed empty_sys"]
      update_level_stores_level_unclamped[OF h1 h3, of default_config "env_ok 0"
        "init_bins_if_needed empty_sys"]
    by (simp add: sample_levels_fit sample_level_too_large r0 t0)
qed

text \<open>
  Claim C8 says that a payload without a usable level is treated as level 0 and that the
  request still succeeds. That is what the code does for a missing or unparsable body, for
  an object without the keys and for a level that \<^verbatim>\<open>int()\<close> rejects (the three lemmas
  on \<open>request_level\<close> above). A body that is valid JSON but not an object, such as the
  array \<^verbatim>\<open>[1]\<close>, is truthy, so it is not replaced by the empty object, and
  \<^verbatim>\<open>data.get\<close> on line 144 raises outside the \<^verbatim>\<open>try\<close>: the request fails and nothing
  is stored.
\<close>

theorem update_level_array_payload_raises:
  "update_level cfg e ''yellow'' (Some (JArr [JInt 1])) s = (Inl AttributeError, s)"
  by (simp add: update_level_def valid_bins_def get_json_or_empty_def py_or_def request_level_def)

section \<open>Ingestion: the alert rule\<close>

text \<open>
  Claim C2 says that for every request with a valid bin the notifier is called if and only
  if the coerced level is at least 80 and the cooldown has elapsed. A level of \<open>2 ^ 63\<close>
  is at least 80, and on the start-up tables at time 1000 the cooldown of 60 seconds has
  elapsed; yet the commit fails before the alert rule is reached, and no call is made.
\<close>

theorem update_level_alert_rule_counterexample:
  "''yellow'' \<in> set valid_bins
   \<and> request_level (get_json_or_empty (Some (JObj [(''level'', JInt 9223372036854775808)])))
       = Inr 9223372036854775808
   \<and> (80 :: int) \<le> 9223372036854775808
   \<and> real_of_int (ALERT_COOLDOWN_SECONDS twilio_config)
        \<le> time_time (env_ok 1000) - last_alert_of (init_bins_if_needed empty_sys) ''yellow''
   \<and> update_level twilio_config (env_ok 1000) ''yellow''
        (Some (JObj [(''level'', JInt 9223372036854775808)])) (init_bins_if_needed empty_sys)
       = (Inl OverflowError, init_bins_if_needed empty_sys)
   \<and> sms_calls (snd (update_level twilio_config (env_ok 1000) ''yellow''
        (Some (JObj [(''level'', JInt 9223372036854775808)])) (init_bins_if_needed empty_sys)))
       = []"
proof -
  have upd: "update_level twilio_config (env_ok 1000) ''yellow''
        (Some (JObj [(''level'', JInt 9223372036854775808)])) (init_bins_if_needed empty_sys)
       = (Inl OverflowError, init_bins_if_needed empty_sys)"
    by (rule update_level_overflow[OF yellow_valid sample_payload_level sample_level_too_large])
  have calls0: "sms_calls (init_bins_if_needed empty_sys) = []"
    by (simp add: init_bins_if_needed_def empty_sys_def)
  show ?thesis
    using yellow_valid sample_payload_level[of 9223372036854775808] upd
    by (simp add: calls0 last_alert_of_init sample_cooldown sample_time)
qed

text \<open>
  Claim C2, amended: for a valid bin and a payload that yields the level \<open>lvl\<close>, if \<open>lvl\<close>
  fits the database's signed 64-bit integer column, the notifier is called (once, with the
  bin and that level) if and only if \<open>lvl\<close> is at least 80 and the time since the bin's
  last alert (0 when unset) is at least the cooldown, and otherwise no call is made and the
  response says that no alert was sent; if \<open>lvl\<close> does not fit, the request fails at the
  commit and no call is made.
\<close>

theorem update_level_alert_rule:
  assumes "bin_color \<in> set valid_bins"
      and "request_level (get_json_or_empty payload) = Inr lvl"
  shows "if sqlite_int lvl
         then (if 80 \<le> lvl
                  \<and> real_of_int (ALERT_COOLDOWN_SECONDS cfg) \<le> time_time e - last_alert_of s bin_color
               then sms_calls (snd (update_level cfg e bin_color payload s))
                      = sms_calls s @ [(bin_color, lvl)]
               else sms_calls (snd (update_level cfg e bin_color payload s)) = sms_calls s
                    \<and> fst (update_level cfg e bin_color payload s)
                        = Inr (200, UpdateBody ''success'' bin_color lvl False))
         else update_level cfg e bin_color payload s = (Inl OverflowError, s)"
proof (cases "sqlite_int lvl")
  case True
  obtain b s1 where s1: "s1 = s\<lparr>bins_tbl := (bins_tbl s)(bin_color \<mapsto> b),
                 readings_tbl := readings_tbl s
                   @ [\<lparr>bin_name = bin_color, level = lvl, ts = reading_utcnow e\<rparr>]\<rparr>"
      and upd: "update_level cfg e bin_color payload s =
           (if 80 \<le> lvl
               \<and> real_of_int (ALERT_COOLDOWN_SECONDS cfg) \<le> time_time e - last_alert_of s bin_color
            then (case fst (safe_send_sms cfg e bin_color lvl s) of
                    Sent sid \<Rightarrow>
                      (Inr (200, UpdateBody ''success'' bin_color lvl True),
                       log_action e ''auto_alert_sent''
                         (bin_color @ '' level='' @ str_int lvl @ '' sid='' @ sid)
                         (s1\<lparr>sms_calls := sms_calls s @ [(bin_color, lvl)],
                             bins_tbl := (bins_tbl s)(bin_color \<mapsto> b\<lparr>last_alert_ts := Some (time_time e)\<rparr>)\<rparr>))
                  | NotSent err \<Rightarrow>
                      (Inr (200, UpdateBody ''success'' bin_color lvl False),
                       log_action e ''auto_alert_failed''
                         (bin_color @ '' level='' @ str_int lvl @ '' error='' @ err)
                         (s1\<lparr>sms_calls := sms_calls s @ [(bin_color, lvl)]\<rparr>)))
            else (Inr (200, UpdateBody ''success'' bin_color lvl False), s1))"
    using update_level_in_range[OF assms True, of s e cfg] by blast
  show ?thesis
    unfolding upd using True
    by (simp add: s1 log_action_def split: sms_result.splits)
next
  case False
  then show ?thesis
    using update_level_overflow[OF assms False] by simp
qed

text \<open>
  The amended claim C2 on the example of the specification: level 85 for yellow long after
  the last alert calls the notifier; the same request five seconds later, within the
  cooldown of 60 seconds, does not.
\<close>

theorem update_level_alert_rule_witness:
  "''yellow'' \<in> set valid_bins
   \<and> request_level (get_json_or_empty (Some (JObj [(''level'', JInt 85)]))) = Inr 85
   \<and> sqlite_int 85
   \<and> sms_calls (snd (update_level twilio_config (env_ok 1000) ''yellow''
        (Some (JObj [(''level'', JInt 85)])) (init_bins_if_needed empty_sys)))
       = [(''yellow'', 85)]
   \<and> fst (update_level twilio_config (env_ok 1005) ''yellow''
        (Some (JObj [(''level'', JInt 85)]))
        (snd (update_level twilio_config (env_ok 1000) ''yellow''
           (Some (JObj [(''level'', JInt 85)])) (init_bins_if_needed empty_sys))))
       = Inr (200, UpdateBody ''success'' ''yellow'' 85 False)"
proof -
  let ?p = "Some (JObj [(''level'', JInt 85)])"
  let ?s0 = "init_bins_if_needed empty_sys"
  let ?s1 = "snd (update_level twilio_config (env_ok 1000) ''yellow'' ?p ?s0)"
  have h1: "''yellow'' \<in> set valid_bins"
    by (rule yellow_valid)
  have h2: "request_level (get_json_or_empty ?p) = Inr 85"
    by (rule sample_payload_level)
  have calls0: "sms_calls ?s0 = []"
    by (simp add: init_bins_if_needed_def empty_sys_def)
  have first: "sms_calls ?s1 = [(''yellow'', 85)]"
    using update_level_alert_rule[OF h1 h2, of twilio_config "env_ok 1000" ?s0]
    by (simp add: sample_levels_fit last_alert_of_init sample_cooldown sample_time calls0)
  have last1: "last_alert_of ?s1 ''yellow'' = 1000"
    by (simp add: update_level_def store_level_def sqlite_int_def safe_send_sms_def
        log_action_def h1 h2 last_alert_of_def ts_or_0_def twilio_config_def env_ok_def
        env_set_def init_bins_if_needed_def empty_sys_def valid_bins_def Let_def)
  have second: "fst (update_level twilio_config (env_ok 1005) ''yellow'' ?p ?s1)
                  = Inr (200, UpdateBody ''success'' ''yellow'' 85 False)"
    using update_level_alert_rule[OF h1 h2, of twilio_config "env_ok 1005" ?s1]
    by (simp add: sample_levels_fit last1 sample_cooldown sample_time)
  show ?thesis
    using h1 h2 first second by (simp add: sample_levels_fit)
qed



section \<open>The manual trigger\<close>

text \<open>
  Claim C4: for a valid bin whose row exists, \<^verbatim>\<open>trigger_alert\<close> calls the notifier with
  the bin's stored level whatever that level and \<^verbatim>\<open>last_alert_ts\<close> are. When the send
  succeeds, \<^verbatim>\<open>last_alert_ts\<close> becomes the current time and \<^verbatim>\<open>manual_alert_sent\<close> is
  audited; when it fails, the bins are unchanged and \<^verbatim>\<open>manual_alert_failed\<close> is audited.
\<close>

theorem trigger_alert_unconditional:
  assumes "bin_color \<in> set valid_bins"
      and "bins_tbl s bin_color = Some b"
  shows "sms_calls (snd (trigger_alert cfg e bin_color s))
           = sms_calls s @ [(bin_color, latest_level b)]
       \<and> (case fst (safe_send_sms cfg e bin_color (latest_level b) s) of
            Sent sid \<Rightarrow>
              fst (trigger_alert cfg e bin_color s) = (200, AlertSentBody ''alert_sent'' sid)
              \<and> bins_tbl (snd (trigger_alert cfg e bin_color s))
                  = (bins_tbl s)(bin_color \<mapsto> b\<lparr>last_alert_ts := Some (time_time e)\<rparr>)
              \<and> action_logs_tbl (snd (trigger_alert cfg e bin_color s))
                  = action_logs_tbl s
                    @ [\<lparr>action_type = ''manual_alert_sent'',
                        detail = bin_color @ '' level='' @ str_int (latest_level b) @ '' sid='' @ sid,
                        log_ts = action_utcnow e\<rparr>]
          | NotSent err \<Rightarrow>
              fst (trigger_alert cfg e bin_color s) = (500, AlertFailedBody ''alert_failed'' err)
              \<and> bins_tbl (snd (trigger_alert cfg e bin_color s)) = bins_tbl s
              \<and> action_logs_tbl (snd (trigger_alert cfg e bin_color s))
                  = action_logs_tbl s
                    @ [\<lparr>action_type = ''manual_alert_failed'',
                        detail = bin_color @ '' level='' @ str_int (latest_level b) @ '' error='' @ err,
                        log_ts = action_utcnow e\<rparr>])"
proof (cases "fst (safe_send_sms cfg e bin_color (latest_level b) s)")
  case (Sent sid)
  then have "safe_send_sms cfg e bin_color (latest_level b) s
      = (Sent sid, s\<lparr>sms_calls := sms_calls s @ [(bin_color, latest_level b)]\<rparr>)"
    using safe_send_sms_pair[of cfg e bin_color "latest_level b" s s] by simp
  then show ?thesis
    using assms Sent by (simp add: trigger_alert_def log_action_def)
next
  case (NotSent err)
  then have "safe_send_sms cfg e bin_color (latest_level b) s
      = (NotSent err, s\<lparr>sms_calls := sms_calls s @ [(bin_color, latest_level b)]\<rparr>)"
    using safe_send_sms_pair[of cfg e bin_color "latest_level b" s s] by simp
  then show ?thesis
    using assms NotSent by (simp add: trigger_alert_def log_action_def)
qed

text \<open>
  Claim C4 on the start-up tables, where yellow has level 0 and has never alerted: with a
  working provider the alert goes out and the time 1000 is recorded; with a provider that
  is down the attempt is made all the same and the row keeps its time.
\<close>

theorem trigger_alert_unconditional_witness:
  "''yellow'' \<in> set valid_bins
   \<and> bins_tbl (init_bins_if_needed empty_sys) ''yellow''
       = Some \<lparr>last_alert_ts = Some 0, latest_level = 0\<rparr>
   \<and> sms_calls (snd (trigger_alert twilio_config (env_ok 1000) ''yellow'' (init_bins_if_needed empty_sys)))
       = [(''yellow'', 0)]
   \<and> fst (trigger_alert twilio_config (env_ok 1000) ''yellow'' (init_bins_if_needed empty_sys))
       = (200, AlertSentBody ''alert_sent'' ''SM1'')
   \<and> bins_tbl (snd (trigger_alert twilio_config (env_ok 1000) ''yellow'' (init_bins_if_needed empty_sys)))
        ''yellow''
       = Some \<lparr>last_alert_ts = Some 1000, latest_level = 0\<rparr>
   \<and> sms_calls (snd (trigger_alert twilio_config (env_down 1000) ''yellow'' (init_bins_if_needed empty_sys)))
       = [(''yellow'', 0)]
   \<and> fst (trigger_alert twilio_config (env_down 1000) ''yellow'' (init_bins_if_needed empty_sys))
       = (500, AlertFailedBody ''alert_failed'' ''unreachable'')
   \<and> bins_tbl (snd (trigger_alert twilio_config (env_down 1000) ''yellow'' (init_bins_if_needed empty_sys)))
        ''yellow''
       = Some \<lparr>last_alert_ts = Some 0, latest_level = 0\<rparr>"
proof -
  let ?s0 = "init_bins_if_needed empty_sys"
  let ?b = "\<lparr>last_alert_ts = Some 0, latest_level = 0\<rparr>"
  have h1: "''yellow'' \<in> set valid_bins"
    by (rule yellow_valid)
  have h2: "bins_tbl ?s0 ''yellow'' = Some ?b"
    by (simp add: init_bins_if_needed_def empty_sys_def valid_bins_def)
  have calls0: "sms_calls ?s0 = []"
    by (simp add: init_bins_if_needed_def empty_sys_def)
  have ok: "fst (safe_send_sms twilio_config (env_ok 1000) ''yellow'' 0 ?s0) = Sent ''SM1''"
    by (simp add: safe_send_sms_def twilio_config_def env_ok_def env_set_def)
  have down: "fst (safe_send_sms twilio_config (env_down 1000) ''yellow'' 0 ?s0) = NotSent ''unreachable''"
    by (simp add: safe_send_sms_def twilio_config_def env_down_def env_set_def)
  show ?thesis
    using h1 h2
      trigger_alert_unconditional[OF h1 h2, of twilio_config "env_ok 1000"]
      trigger_alert_unconditional[OF h1 h2, of twilio_config "env_down 1000"]
    by (simp add: ok down calls0 sample_time)
qed

text \<open>
  Claim C10: for a valid bin name without a row, \<^verbatim>\<open>trigger_alert\<close> answers 404 with
  the error \<^verbatim>\<open>bin not found\<close> and changes nothing: no send is attempted, no audit row is
  written and no bin is created. \<^verbatim>\<open>update_level\<close>, by contrast, creates the missing row
  (whenever it stores a level at all, that is, when the level fits the integer column).
\<close>

theorem trigger_alert_missing_bin:
  assumes "bin_color \<in> set valid_bins"
      and "bins_tbl s bin_color = None"
  shows "trigger_alert cfg e bin_color s = ((404, ErrorBody ''bin not found''), s)
       \<and> (request_level (get_json_or_empty payload) = Inr lvl \<and> sqlite_int lvl \<longrightarrow>
            bins_tbl (snd (update_level cfg e bin_color payload s)) bin_color \<noteq> None)"
proof -
  have trig: "trigger_alert cfg e bin_color s = ((404, ErrorBody ''bin not found''), s)"
    using assms by (simp add: trigger_alert_def)
  have upd: "bins_tbl (snd (update_level cfg e bin_color payload s)) bin_color \<noteq> None"
    if rl: "request_level (get_json_or_empty payload) = Inr lvl" and fits: "sqlite_int lvl"
  proof -
    obtain b s1 where s1: "s1 = s\<lparr>bins_tbl := (bins_tbl s)(bin_color \<mapsto> b),
                   readings_tbl := readings_tbl s
                     @ [\<lparr>bin_name = bin_color, level = lvl, ts = reading_utcnow e\<rparr>]\<rparr>"
        and upd: "update_level cfg e bin_color payload s =
             (if 80 \<le> lvl
                 \<and> real_of_int (ALERT_COOLDOWN_SECONDS cfg) \<le> time_time e - last_alert_of s bin_color
              then (case fst (safe_send_sms cfg e bin_color lvl s) of
                      Sent sid \<Rightarrow>
                        (Inr (200, UpdateBody ''success'' bin_color lvl True),
                         log_action e ''auto_alert_sent''
                           (bin_color @ '' level='' @ str_int lvl @ '' sid='' @ sid)
                           (s1\<lparr>sms_calls := sms_calls s @ [(bin_color, lvl)],
                               bins_tbl := (bins_tbl s)(bin_color \<mapsto> b\<lparr>last_alert_ts := Some (time_time e)\<rparr>)\<rparr>))
                    | NotSent err \<Rightarrow>
                        (Inr (200, UpdateBody ''success'' bin_color lvl False),
                         log_action e ''auto_alert_failed''
                           (bin_color @ '' level='' @ str_int lvl @ '' error='' @ err)
                           (s1\<lparr>sms_calls := sms_calls s @ [(bin_color, lvl)]\<rparr>)))
              else (Inr (200, UpdateBody ''success'' bin_color lvl False), s1))"
      using update_level_in_range[OF assms(1) rl fits, of s e cfg] by blast
    show ?thesis
      unfolding upd by (simp add: s1 log_action_def split: sms_result.splits)
  qed
  show ?thesis
    using trig upd by blast
qed

text \<open>Claim C10 on tables that hold no bin yet.\<close>

theorem trigger_alert_missing_bin_witness:
  "''yellow'' \<in> set valid_bins
   \<and> bins_tbl empty_sys ''yellow'' = None
   \<and> trigger_alert twilio_config (env_ok 1000) ''yellow'' empty_sys
       = ((404, ErrorBody ''bin not found''), empty_sys)
   \<and> request_level (get_json_or_empty (Some (JObj [(''level'', JInt 85)]))) = Inr 85
   \<and> sqlite_int 85
   \<and> bins_tbl (snd (update_level twilio_config (env_ok 1000) ''yellow''
        (Some (JObj [(''level'', JInt 85)])) empty_sys)) ''yellow'' \<noteq> None"
proof -
  have h1: "''yellow'' \<in> set valid_bins"
    by (rule yellow_valid)
  have h2: "bins_tbl empty_sys ''yellow'' = None"
    by (simp add: empty_sys_def)
  have h3: "request_level (get_json_or_empty (Some (JObj [(''level'', JInt 85)]))) = Inr 85"
    by (rule sample_payload_level)
  show ?thesis
    using h1 h2 h3
      trigger_alert_missing_bin[OF h1 h2, of twilio_config "env_ok 1000"
        "Some (JObj [(''level'', JInt 85)])" 85]
    by (simp add: sample_levels_fit)
qed

section \<open>The pause flag\<close>

lemma truthy_falsy_values:
  "(\<not> truthy v) = (v \<in> {JNull, JBool False, JInt 0, JFloat 0, JStr [], JArr [], JObj []})"
  by (cases v) auto

lemma lower_True: "lower ''True'' = ''true''"
  by code_simp

lemma lower_False: "lower ''False'' = ''false''"
  by code_simp

lemma lower_str_bool: "lower (str_bool b) = (if b then ''true'' else ''false'')"
  by (simp add: str_bool_def lower_True lower_False)

text \<open>
  Claim C9: when the body of \<^verbatim>\<open>PATCH /config\<close> is an object with the key
  \<^verbatim>\<open>simulator_paused\<close>, the stored flag (and the flag in the response) is the Python
  truth value of what the key holds: it is false exactly for null, false, 0, 0.0, the empty
  string, the empty array and the empty object, so the string \<^verbatim>\<open>false\<close> and every
  non-zero number set it to true.
\<close>

theorem patch_config_truthiness:
  assumes "map_of kvs ''simulator_paused'' = Some v"
  shows "settings_tbl (snd (patch_config e (Some (JObj kvs)) s)) ''simulator_paused''
           = Some (if truthy v then ''true'' else ''false'')
       \<and> fst (patch_config e (Some (JObj kvs)) s)
           = Inr (200, ConfigBody ''ok'' (truthy v) [''simulator_paused='' @ str_bool (truthy v)])
       \<and> (\<not> truthy v) = (v \<in> {JNull, JBool False, JInt 0, JFloat 0, JStr [], JArr [], JObj []})
       \<and> truthy (JStr ''false'')
       \<and> (\<forall>n. truthy (JInt n) = (n \<noteq> 0))
       \<and> (\<forall>t. truthy (JStr t) = (t \<noteq> []))"
proof -
  have ne: "kvs \<noteq> []"
    using assms by auto
  then have d: "get_json_or_empty (Some (JObj kvs)) = JObj kvs"
    by (simp add: get_json_or_empty_def py_or_def)
  show ?thesis
    using assms
    by (simp add: patch_config_def d Let_def set_setting_def log_action_def get_setting_def
        lower_str_bool truthy_falsy_values)
qed

text \<open>Claim C9 for the body \<^verbatim>\<open>{"simulator_paused": "false"}\<close>, which pauses the simulator.\<close>

theorem patch_config_truthiness_witness:
  "map_of [(''simulator_paused'', JStr ''false'')] ''simulator_paused'' = Some (JStr ''false'')
   \<and> settings_tbl (snd (patch_config (env_ok 0)
        (Some (JObj [(''simulator_paused'', JStr ''false'')])) empty_sys)) ''simulator_paused''
       = Some ''true''
   \<and> fst (patch_config (env_ok 0) (Some (JObj [(''simulator_paused'', JStr ''false'')])) empty_sys)
       = Inr (200, ConfigBody ''ok'' True [''simulator_paused=True''])"
proof -
  have h1: "map_of [(''simulator_paused'', JStr ''false'')] ''simulator_paused'' = Some (JStr ''false'')"
    by simp
  show ?thesis
    using h1 patch_config_truthiness[OF h1, of "env_ok 0" empty_sys]
    by (simp add: str_bool_def)
qed


section \<open>The readings endpoint\<close>

lemma sorted_desc_rev:
  fixes f :: "'a \<Rightarrow> int"
  assumes "sorted (map (\<lambda>r. - f r) xs)"
  shows "sorted (map f (rev xs))"
proof -
  have "sorted_wrt (\<lambda>x y. - f x \<le> - f y) xs"
    using assms by (simp add: sorted_map)
  then have "sorted_wrt (\<lambda>x y. f y \<le> f x) xs"
    by simp
  then have "sorted_wrt (\<lambda>x y. f x \<le> f y) (rev xs)"
    by (simp add: sorted_wrt_rev)
  then show ?thesis
    by (simp add: sorted_map)
qed

lemma sample_limit: "int_of_str ''2'' = Some 2"
  by (simp add: int_of_str_def strip_def is_space_def is_digit_def digit_val_def)

lemma sample_limit_too_large: "int_of_str ''9223372036854775808'' = Some 9223372036854775808"
  by (simp add: int_of_str_def strip_def is_space_def is_digit_def digit_val_def)

text \<open>
  Claim C7 says that the endpoint answers with the most recent readings for every limit
  \<open>n \<ge> 0\<close>. The limit \<open>2 ^ 63\<close> is such an \<open>n\<close>, but the database cannot bind it: the
  query raises and the request fails.
\<close>

theorem readings_limit_counterexample:
  "''yellow'' \<in> set valid_bins
   \<and> py_int (JStr ''9223372036854775808'') = Inr 9223372036854775808
   \<and> (0 :: int) \<le> 9223372036854775808
   \<and> readings ''yellow'' (Some ''9223372036854775808'') sample_readings = Inl OverflowError"
  by (simp add: readings_def valid_bins_def sample_limit_too_large sql_limit_def sqlite_int_def)

text \<open>
  Claim C7, amended: for a valid bin and a limit \<open>n\<close> with \<open>0 \<le> n < 2 ^ 63\<close> (the query
  argument, or 100 without one), the response lists \<open>n\<close> of the bin's readings, or all of
  them when there are fewer, in chronological order, and they are the most recent ones:
  the rows returned and the rows left out are together exactly the stored readings of that
  bin, and no row left out has a later timestamp than a row returned.
\<close>

theorem readings_last_n_chronological:
  assumes "bin_color \<in> set valid_bins"
      and "(case n_arg of None \<Rightarrow> Inr 100 | Some a \<Rightarrow> py_int (JStr a)) = Inr n"
      and "0 \<le> n"
      and "n < 2 ^ 63"
  shows "\<exists>older rows.
           readings bin_color n_arg s = Inr (200, ReadingsBody (map (\<lambda>r. (level r, ts r)) rows))
         \<and> mset (older @ rows) = mset (filter (\<lambda>r. bin_name r = bin_color) (readings_tbl s))
         \<and> (\<forall>r \<in> set rows. bin_name r = bin_color \<and> r \<in> set (readings_tbl s))
         \<and> length rows
             = min (nat n) (length (filter (\<lambda>r. bin_name r = bin_color) (readings_tbl s)))
         \<and> sorted (map ts rows)
         \<and> (\<forall>a \<in> set older. \<forall>b \<in> set rows. ts a \<le> ts b)"
proof -
  define F where "F = filter (\<lambda>r. bin_name r = bin_color) (readings_tbl s)"
  define S where "S = sort_key (\<lambda>r. - ts r) F"
  define rows where "rows = rev (take (nat n) S)"
  define older where "older = rev (drop (nat n) S)"
  have fits: "sqlite_int n"
    using assms(3,4) by (simp add: sqlite_int_def)
  have split: "older @ rows = rev S"
    unfolding older_def rows_def by (simp flip: rev_append)
  have resp: "readings bin_color n_arg s = Inr (200, ReadingsBody (map (\<lambda>r. (level r, ts r)) rows))"
    using assms(1,2,3) fits
    by (simp add: readings_def sql_limit_def order_by_ts_desc_def rows_def S_def F_def)
  have ms: "mset (older @ rows) = mset F"
    unfolding split S_def by simp
  have sub: "\<forall>r \<in> set rows. bin_name r = bin_color \<and> r \<in> set (readings_tbl s)"
  proof
    fix r
    assume "r \<in> set rows"
    then have "r \<in> set S"
      unfolding rows_def by (auto dest: in_set_takeD)
    then have "r \<in> set F"
      unfolding S_def by simp
    then show "bin_name r = bin_color \<and> r \<in> set (readings_tbl s)"
      unfolding F_def by simp
  qed
  have len: "length rows = min (nat n) (length F)"
    unfolding rows_def S_def by simp
  have "sorted (map (\<lambda>r. - ts r) S)"
    unfolding S_def by (rule sorted_sort_key)
  then have srt: "sorted (map ts (older @ rows))"
    unfolding split by (rule sorted_desc_rev)
  have s2: "sorted (map ts rows)"
    using srt by (simp add: sorted_append)
  have ord: "\<forall>a \<in> set older. \<forall>b \<in> set rows. ts a \<le> ts b"
    using srt by (simp add: sorted_append)
  show ?thesis
    using resp ms sub len s2 ord unfolding F_def by blast
qed

lemma sample_readings_yellow:
  "readings ''yellow'' (Some ''2'') sample_readings = Inr (200, ReadingsBody [(40, 30), (90, 40)])"
  by (simp add: readings_def valid_bins_def sample_limit sql_limit_def sqlite_int_def
      order_by_ts_desc_def sample_readings_def empty_sys_def)

text \<open>
  The amended claim C7 for \<^verbatim>\<open>GET /readings/yellow?n=2\<close> on the four sample readings: the
  two latest yellow readings come back, the older of them first.
\<close>

theorem readings_last_n_chronological_witness:
  "''yellow'' \<in> set valid_bins
   \<and> py_int (JStr ''2'') = Inr 2
   \<and> (0 :: int) \<le> 2
   \<and> (2 :: int) < 2 ^ 63
   \<and> readings ''yellow'' (Some ''2'') sample_readings = Inr (200, ReadingsBody [(40, 30), (90, 40)])
   \<and> (\<exists>older rows.
         readings ''yellow'' (Some ''2'') sample_readings
           = Inr (200, ReadingsBody (map (\<lambda>r. (level r, ts r)) rows))
       \<and> mset (older @ rows)
           = mset (filter (\<lambda>r. bin_name r = ''yellow'') (readings_tbl sample_readings))
       \<and> length rows
           = min (nat 2) (length (filter (\<lambda>r. bin_name r = ''yellow'') (readings_tbl sample_readings)))
       \<and> sorted (map ts rows))"
proof -
  have h1: "''yellow'' \<in> set valid_bins"
    by (rule yellow_valid)
  have p: "py_int (JStr ''2'') = Inr 2"
    by (simp add: sample_limit)
  have h2: "(case Some ''2'' of None \<Rightarrow> Inr 100 | Some a \<Rightarrow> py_int (JStr a)) = Inr 2"
    by (simp add: sample_limit)
  have h3: "(0 :: int) \<le> 2"
    by simp
  have h4: "(2 :: int) < 2 ^ 63"
    by simp
  show ?thesis
    using h1 p h3 h4 sample_readings_yellow
      readings_last_n_chronological[OF h1 h2 h3 h4, of sample_readings]
    by blast
qed

section \<open>Facts about double rounding\<close>

lemma bit_length_bounds:
  "0 < n \<Longrightarrow> 2 ^ (bit_length n - 1) \<le> n \<and> n < 2 ^ bit_length n"
proof (induction n rule: bit_length.induct)
  case (1 n)
  show ?case
  proof (cases "n div 2 = 0")
    case True
    then have "n = 1" using 1(2) by linarith
    then show ?thesis by (simp add: bit_length.simps)
  next
    case False
    then have pos: "0 < n div 2" by simp
    have ih: "2 ^ (bit_length (n div 2) - 1) \<le> n div 2 \<and> n div 2 < 2 ^ bit_length (n div 2)"
      using 1(1) 1(2) pos by simp
    have bl: "bit_length n = Suc (bit_length (n div 2))"
      using 1(2) by (simp add: bit_length.simps[of n])
    have bpos: "0 < bit_length (n div 2)"
      using pos by (simp add: bit_length.simps[of "n div 2"])
    then obtain k where k: "bit_length (n div 2) = Suc k"
      by (cases "bit_length (n div 2)") auto
    have lo: "2 * 2 ^ k \<le> n" using ih k by auto
    have hi: "n < 2 * 2 ^ Suc k" using ih k by auto
    show ?thesis using lo hi bl k by simp
  qed
qed

lemma pow2_powr: "pow2 e = 2 powr (real_of_int e)"
proof (cases "0 \<le> e")
  case True
  then show ?thesis by (simp add: pow2_def powr_realpow[symmetric])
next
  case False
  then have h: "real_of_int e = - real (nat (- e))" by simp
  have "2 powr (real_of_int e) = 1 / 2 ^ nat (- e)"
    unfolding h by (simp add: powr_minus powr_realpow inverse_eq_divide)
  then show ?thesis using False by (simp add: pow2_def)
qed

lemma pow2_pos: "0 < pow2 e"
  by (simp add: pow2_powr)

lemma pow2_add: "pow2 (a + b) = pow2 a * pow2 b"
  by (simp add: pow2_powr powr_add)

lemma pow2_mono: "a \<le> b \<Longrightarrow> pow2 a \<le> pow2 b"
  by (simp add: pow2_powr)

lemma pow2_nat: "pow2 (int n) = 2 ^ n"
  by (simp add: pow2_def)

lemma bit_length_real_bounds:
  assumes "0 < n"
  shows "(2::real) ^ (bit_length n - 1) \<le> real n" and "real n + 1 \<le> 2 ^ bit_length n"
proof -
  have b: "2 ^ (bit_length n - 1) \<le> n" "n + 1 \<le> 2 ^ bit_length n"
    using bit_length_bounds[OF assms] by simp_all
  have "(2::real) ^ (bit_length n - 1) = real (2 ^ (bit_length n - 1))"
    by simp
  also have "\<dots> \<le> real n"
    using b(1) by (simp only: of_nat_le_iff)
  finally show "(2::real) ^ (bit_length n - 1) \<le> real n" .
  have "real n + 1 = real (n + 1)"
    by simp
  also have "\<dots> \<le> real (2 ^ bit_length n)"
    using b(2) by (simp only: of_nat_le_iff)
  also have "\<dots> = 2 ^ bit_length n"
    by simp
  finally show "real n + 1 \<le> 2 ^ bit_length n" .
qed

lemma bit_length_pos: "0 < n \<Longrightarrow> 0 < bit_length n"
  by (simp add: bit_length.simps[of n])

lemma pow2_neg_nat: "pow2 (- int n) = 1 / 2 ^ n"
  by (simp add: pow2_def)

lemma expo_bounds:
  assumes "0 < x"
  shows "pow2 (expo x) \<le> x \<and> x < pow2 (expo x + 1)"
proof (cases "1 \<le> x")
  case True
  define m where "m = nat \<lfloor>x\<rfloor>"
  have mpos: "0 < m"
    using True by (simp add: m_def)
  have blpos: "0 < bit_length m"
    using mpos by (rule bit_length_pos)
  have e: "expo x = int (bit_length m) - 1"
    using True by (simp add: expo_def m_def)
  have e1: "expo x = int (bit_length m - 1)"
    using e blpos by simp
  have e2: "expo x + 1 = int (bit_length m)"
    using e by simp
  have mx: "real m \<le> x"
    using True by (simp add: m_def)
  have xm: "x < real m + 1"
    using True by (simp add: m_def)
  have lo: "pow2 (expo x) \<le> x"
    unfolding e1 pow2_nat using bit_length_real_bounds(1)[OF mpos] mx by linarith
  have hi: "x < pow2 (expo x + 1)"
    unfolding e2 pow2_nat using bit_length_real_bounds(2)[OF mpos] xm by linarith
  show ?thesis
    using lo hi by simp
next
  case False
  then have x1: "x < 1"
    by simp
  define c where "c = nat (\<lceil>1 / x\<rceil> - 1)"
  have inv: "1 < 1 / x"
    using assms x1 by simp
  then have ce: "2 \<le> \<lceil>1 / x\<rceil>"
    by linarith
  have cpos: "0 < c"
    unfolding c_def using ce by linarith
  have nn: "0 \<le> \<lceil>1 / x\<rceil> - 1"
    using ce by linarith
  have "real c = real_of_int (\<lceil>1 / x\<rceil> - 1)"
    unfolding c_def using nn by (rule of_nat_nat)
  then have creal: "real c = real_of_int \<lceil>1 / x\<rceil> - 1"
    by simp
  have c_lt: "real c < 1 / x"
    unfolding creal by linarith
  have c_ge: "1 / x \<le> real c + 1"
    unfolding creal by linarith
  have blpos: "0 < bit_length c"
    using cpos by (rule bit_length_pos)
  have e: "expo x = - int (bit_length c)"
    using False by (simp add: expo_def c_def)
  have e2: "expo x + 1 = - int (bit_length c - 1)"
    using e blpos by simp
  have lo: "pow2 (expo x) \<le> x"
  proof -
    have "1 / x \<le> 2 ^ bit_length c"
      using bit_length_real_bounds(2)[OF cpos] c_ge by linarith
    then have "1 \<le> 2 ^ bit_length c * x"
      using assms by (simp add: field_simps)
    then have "1 / 2 ^ bit_length c \<le> x"
      by (simp add: field_simps)
    then show ?thesis
      unfolding e pow2_neg_nat .
  qed
  have hi: "x < pow2 (expo x + 1)"
  proof -
    have "2 ^ (bit_length c - 1) < 1 / x"
      using bit_length_real_bounds(1)[OF cpos] c_lt by linarith
    then have "2 ^ (bit_length c - 1) * x < 1"
      using assms by (simp add: field_simps)
    then have "x < 1 / 2 ^ (bit_length c - 1)"
      by (simp add: field_simps)
    then show ?thesis
      unfolding e2 pow2_neg_nat .
  qed
  show ?thesis
    using lo hi by simp
qed

lemma expo_mono:
  assumes "0 < x" "x \<le> y"
  shows "expo x \<le> expo y"
proof (rule ccontr)
  assume "\<not> expo x \<le> expo y"
  then have "expo y + 1 \<le> expo x" by simp
  then have "pow2 (expo y + 1) \<le> pow2 (expo x)" by (rule pow2_mono)
  moreover have "y < pow2 (expo y + 1)" using expo_bounds[of y] assms by simp
  moreover have "pow2 (expo x) \<le> x" using expo_bounds[of x] assms by simp
  ultimately show False using assms by linarith
qed

lemma rne_ge: "real_of_int n \<le> x \<Longrightarrow> n \<le> rne x"
proof -
  assume "real_of_int n \<le> x"
  then have "n \<le> \<lfloor>x\<rfloor>" by (simp add: le_floor_iff)
  then show ?thesis by (simp add: rne_def Let_def)
qed

lemma rne_le: "x \<le> real_of_int n \<Longrightarrow> rne x \<le> n"
proof -
  assume a: "x \<le> real_of_int n"
  show ?thesis
  proof (cases "x = real_of_int n")
    case True
    then show ?thesis by (simp add: rne_def Let_def)
  next
    case False
    then have "x < real_of_int n" using a by simp
    then have "\<lfloor>x\<rfloor> < n" by (simp add: floor_less_iff)
    then show ?thesis by (simp add: rne_def Let_def)
  qed
qed

lemma rne_mono: "x \<le> y \<Longrightarrow> rne x \<le> rne y"
proof -
  assume xy: "x \<le> y"
  have fl: "\<lfloor>x\<rfloor> \<le> \<lfloor>y\<rfloor>" using xy by (rule floor_mono)
  show ?thesis
  proof (cases "\<lfloor>x\<rfloor> = \<lfloor>y\<rfloor>")
    case True
    then show ?thesis using xy by (auto simp add: rne_def Let_def)
  next
    case False
    then have "\<lfloor>x\<rfloor> + 1 \<le> \<lfloor>y\<rfloor>" using fl by simp
    moreover have "rne x \<le> \<lfloor>x\<rfloor> + 1" by (simp add: rne_def Let_def)
    moreover have "\<lfloor>y\<rfloor> \<le> rne y" by (simp add: rne_def Let_def)
    ultimately show ?thesis by linarith
  qed
qed

lemma round_double_pos:
  assumes "0 < x"
  shows "round_double x = real_of_int (rne (x / pow2 (expo x - 52))) * pow2 (expo x - 52)"
  using assms by (simp add: round_double_def Let_def)

lemma round_double_range:
  assumes "0 < x"
  shows "pow2 (expo x) \<le> round_double x \<and> round_double x \<le> pow2 (expo x + 1)"
proof -
  let ?u = "pow2 (expo x - 52)"
  have u: "0 < ?u" by (rule pow2_pos)
  have p52: "pow2 52 = 2 ^ 52" and p53: "pow2 53 = 2 ^ 53"
    by (simp_all add: pow2_def)
  have lo_eq: "pow2 (expo x) = 2 ^ 52 * ?u"
    using pow2_add[of 52 "expo x - 52"] p52 by simp
  have hi_eq: "pow2 (expo x + 1) = 2 ^ 53 * ?u"
    using pow2_add[of 53 "expo x - 52"] p53 by (simp add: add.commute)
  have b: "pow2 (expo x) \<le> x \<and> x < pow2 (expo x + 1)"
    using expo_bounds[OF assms] .
  have "real_of_int (2 ^ 52) \<le> x / ?u"
    using b u lo_eq by (simp add: field_simps)
  then have g: "2 ^ 52 \<le> rne (x / ?u)" by (rule rne_ge)
  have "x / ?u \<le> real_of_int (2 ^ 53)"
    using b u hi_eq by (simp add: field_simps)
  then have l: "rne (x / ?u) \<le> 2 ^ 53" by (rule rne_le)
  have g': "(2::real) ^ 52 \<le> real_of_int (rne (x / ?u))"
    using g by (metis of_int_le_iff of_int_numeral of_int_power)
  have l': "real_of_int (rne (x / ?u)) \<le> (2::real) ^ 53"
    using l by (metis of_int_le_iff of_int_numeral of_int_power)
  have "2 ^ 52 * ?u \<le> real_of_int (rne (x / ?u)) * ?u"
    using g' u by (simp add: mult_right_mono)
  moreover have "real_of_int (rne (x / ?u)) * ?u \<le> 2 ^ 53 * ?u"
    using l' u by (simp add: mult_right_mono)
  ultimately show ?thesis
    unfolding round_double_pos[OF assms] lo_eq hi_eq by simp
qed

lemma round_double_nonneg: "0 \<le> x \<Longrightarrow> 0 \<le> round_double x"
proof (cases "x = 0")
  case True
  then show ?thesis by (simp add: round_double_def)
next
  case False
  assume "0 \<le> x"
  then have "0 < x" using False by simp
  then have "pow2 (expo x) \<le> round_double x" using round_double_range by simp
  then show ?thesis using pow2_pos[of "expo x"] by linarith
qed

lemma round_double_mono:
  assumes "0 \<le> x" "x \<le> y"
  shows "round_double x \<le> round_double y"
proof (cases "x = 0")
  case True
  then show ?thesis using assms round_double_nonneg[of y] by (simp add: round_double_def)
next
  case False
  then have xp: "0 < x" using assms by simp
  then have yp: "0 < y" using assms by simp
  have em: "expo x \<le> expo y" using expo_mono[OF xp assms(2)] .
  show ?thesis
  proof (cases "expo x = expo y")
    case True
    let ?u = "pow2 (expo x - 52)"
    have u: "0 < ?u" by (rule pow2_pos)
    have "x / ?u \<le> y / ?u" using assms u by (simp add: divide_right_mono)
    then have "rne (x / ?u) \<le> rne (y / ?u)" by (rule rne_mono)
    then have "real_of_int (rne (x / ?u)) * ?u \<le> real_of_int (rne (y / ?u)) * ?u"
      using u by (simp add: mult_right_mono)
    then show ?thesis
      using round_double_pos[OF xp] round_double_pos[OF yp] True by simp
  next
    case False
    then have "expo x + 1 \<le> expo y" using em by simp
    then have "pow2 (expo x + 1) \<le> pow2 (expo y)" by (rule pow2_mono)
    moreover have "round_double x \<le> pow2 (expo x + 1)" using round_double_range[OF xp] by simp
    moreover have "pow2 (expo y) \<le> round_double y" using round_double_range[OF yp] by simp
    ultimately show ?thesis by linarith
  qed
qed

section \<open>The level generator\<close>




text \<open>The chance is computed unless the counter is too large for a float.\<close>

lemma empty_chance_formula:
  assumes "max 0 (fc - 2) < 2 ^ 1024 - 2 ^ 970"
  shows "empty_chance fc =
           Inr (round_double (round_double 0.25
                  + round_double (round_double 0.15 * round_double (real_of_int (max 0 (fc - 2))))))"
proof -
  have "\<bar>max 0 (fc - 2)\<bar> = max 0 (fc - 2)"
    by simp
  then have "\<not> 2 ^ 1024 - 2 ^ 970 \<le> \<bar>max 0 (fc - 2)\<bar>"
    using assms by linarith
  then show ?thesis
    by (simp add: empty_chance_def float_of_int_def FULL_COUNT_BEFORE_EMPTY_def
        P_EMPTY_WHEN_FULL_def)
qed

lemma empty_chance_overflow:
  assumes "2 ^ 1024 - 2 ^ 970 \<le> fc - 2"
  shows "empty_chance fc = Inl OverflowError"
proof -
  have "(0 :: int) \<le> 2 ^ 1024 - 2 ^ 970"
    by simp
  then have "2 ^ 1024 - 2 ^ 970 \<le> \<bar>max 0 (fc - 2)\<bar>"
    using assms by linarith
  then show ?thesis
    by (simp add: empty_chance_def float_of_int_def FULL_COUNT_BEFORE_EMPTY_def)
qed

lemma empty_chance_cases:
  "empty_chance fc = Inl OverflowError \<and> 2 ^ 1024 - 2 ^ 970 \<le> fc - 2
   \<or> empty_chance fc =
         Inr (round_double (round_double 0.25
                + round_double (round_double 0.15 * round_double (real_of_int (max 0 (fc - 2))))))
       \<and> max 0 (fc - 2) < 2 ^ 1024 - 2 ^ 970"
proof (cases "2 ^ 1024 - 2 ^ 970 \<le> fc - 2")
  case True
  then show ?thesis
    using empty_chance_overflow by simp
next
  case False
  have "(0 :: int) < 2 ^ 1024 - 2 ^ 970"
    by simp
  then have "max 0 (fc - 2) < 2 ^ 1024 - 2 ^ 970"
    using False by linarith
  then show ?thesis
    using empty_chance_formula by simp
qed

lemma empty_chance_mono:
  assumes "empty_chance a = Inr ta" and "empty_chance b = Inr tb" and "a \<le> b"
  shows "ta \<le> tb"
proof -
  let ?m = "\<lambda>fc :: int. real_of_int (max 0 (fc - 2))"
  have ta: "ta = round_double (round_double 0.25 + round_double (round_double 0.15 * round_double (?m a)))"
    using empty_chance_cases[of a] assms(1) by auto
  have tb: "tb = round_double (round_double 0.25 + round_double (round_double 0.15 * round_double (?m b)))"
    using empty_chance_cases[of b] assms(2) by auto
  have c15: "0 \<le> round_double 0.15"
    by (rule round_double_nonneg) simp
  have c25: "0 \<le> round_double 0.25"
    by (rule round_double_nonneg) simp
  have m0: "0 \<le> ?m a"
    by simp
  have mab: "?m a \<le> ?m b"
    using assms(3) by simp
  have r1: "round_double (?m a) \<le> round_double (?m b)"
    using m0 mab by (rule round_double_mono)
  have r1n: "0 \<le> round_double (?m a)"
    using m0 by (rule round_double_nonneg)
  have p: "round_double 0.15 * round_double (?m a) \<le> round_double 0.15 * round_double (?m b)"
    using r1 c15 by (rule mult_left_mono)
  have pn: "0 \<le> round_double 0.15 * round_double (?m a)"
    using c15 r1n by simp
  have r2: "round_double (round_double 0.15 * round_double (?m a))
              \<le> round_double (round_double 0.15 * round_double (?m b))"
    using pn p by (rule round_double_mono)
  have r2n: "0 \<le> round_double (round_double 0.15 * round_double (?m a))"
    using pn by (rule round_double_nonneg)
  have s: "round_double 0.25 + round_double (round_double 0.15 * round_double (?m a))
             \<le> round_double 0.25 + round_double (round_double 0.15 * round_double (?m b))"
    using r2 by simp
  have sn: "0 \<le> round_double 0.25 + round_double (round_double 0.15 * round_double (?m a))"
    using c25 r2n by simp
  show ?thesis
    unfolding ta tb using sn s by (rule round_double_mono)
qed

text \<open>The chances of the counters 1 to 8, as doubles.\<close>

lemma chance_table:
  "empty_chance 1 = Inr (1 / 4)"
  "empty_chance 2 = Inr (1 / 4)"
  "empty_chance 3 = Inr (3602879701896397 / 9007199254740992)"
  "empty_chance 4 = Inr (2476979795053773 / 4503599627370496)"
  "empty_chance 5 = Inr (3152519739159347 / 4503599627370496)"
  "empty_chance 6 = Inr (7656119366529843 / 9007199254740992)"
  "empty_chance 7 = Inr 1"
  "empty_chance 8 = Inr (2589569785738035 / 2251799813685248)"
  by code_simp+

lemma sample_constants:
  "P_BIG_JUMP = 1080863910568919 / 9007199254740992"
  "round_double (P_BIG_JUMP + P_SMALL_DECREASE) = 1080863910568919 / 4503599627370496"
  "OCCASIONAL_EMPTY_PROB = 5764607523034235 / 288230376151711744"
  by code_simp+

text \<open>
  The draws of the unit interval that pass the test against a threshold are an interval
  that starts at 0 and has the length \<open>empty_prob\<close>.
\<close>

lemma empty_prob_interval:
  "{u :: real. 0 \<le> u \<and> u < 1 \<and> u < t} = {0 ..< empty_prob t}"
  by (auto simp add: empty_prob_def)

text \<open>
  \<^verbatim>\<open>random.random()\<close> draws a multiple of \<open>1 / 2 ^ 53\<close>. Every chance below 1 in the
  table is such a multiple, so the share of the draws below it is the chance itself.
\<close>

lemma chance_table_grid:
  "(1 / 4 :: real) * 2 ^ 53 = 2251799813685248"
  "(3602879701896397 / 9007199254740992 :: real) * 2 ^ 53 = 3602879701896397"
  "(2476979795053773 / 4503599627370496 :: real) * 2 ^ 53 = 4953959590107546"
  "(3152519739159347 / 4503599627370496 :: real) * 2 ^ 53 = 6305039478318694"
  "(7656119366529843 / 9007199254740992 :: real) * 2 ^ 53 = 7656119366529843"
  by simp_all


text \<open>
  A bin whose last level is at least 90 but which has no counter makes the generator
  raise; the module never reaches such a state, since both dictionaries are written together.
\<close>

lemma generate_next_level_no_counter:
  "last_levels st name = Some (Some prev) \<Longrightarrow> 90 \<le> prev \<Longrightarrow> full_counts st name = None \<Longrightarrow>
     generate_next_level name st g = Inl (KeyError, st)"
  by (simp add: generate_next_level_def decide_empty_def)

text \<open>
  The module starts in a state where the dictionaries go together, and every call of the
  generator that returns keeps them so.
\<close>

lemma sim_ok_initial: "sim_ok initial_sim"
  by (simp add: sim_ok_def initial_sim_def)

lemma sim_ok_step:
  assumes "sim_ok st"
      and "generate_next_level name st g = Inr (new, st', g')"
  shows "sim_ok st'"
  using assms
  by (auto simp add: sim_ok_def generate_next_level_def split_beta Let_def
      split: option.splits sum.splits if_splits)



lemma sample_sim_yellow:
  "last_levels sample_sim ''yellow'' = Some (Some 95)" "full_counts sample_sim ''yellow'' = Some 3"
  by (simp_all add: sample_sim_def)

lemma sample_draw_delta:
  "fst (draw_delta (sample_rng\<lparr>rng_pos := Suc (rng_pos sample_rng)\<rparr>)) = 6"
  by code_simp



text \<open>
  When the previous level is below 90 the counter restarts: the bin is emptied with the
  small fixed chance, and a new level of at least 90 sets the counter to 1.
\<close>

lemma generate_next_level_below_90:
  "last_levels st name = Some (Some prev) \<Longrightarrow> prev < 90 \<Longrightarrow>
     generate_next_level name st g =
       (let u = rng_floats g (rng_pos g); g1 = g\<lparr>rng_pos := Suc (rng_pos g)\<rparr> in
        if u < OCCASIONAL_EMPTY_PROB
        then Inr (fst (random_randint 0 18 g1),
                  st\<lparr>last_levels := (last_levels st)(name \<mapsto> Some (fst (random_randint 0 18 g1))),
                     full_counts := (full_counts st)(name \<mapsto> 0)\<rparr>,
                  snd (random_randint 0 18 g1))
        else Inr (max 0 (min 100 (prev + fst (draw_delta g1))),
                  st\<lparr>last_levels := (last_levels st)(name \<mapsto> Some (max 0 (min 100 (prev + fst (draw_delta g1))))),
                     full_counts := (full_counts st)(name \<mapsto>
                        (if 90 \<le> max 0 (min 100 (prev + fst (draw_delta g1))) then 0 + 1 else 0))\<rparr>,
                  snd (draw_delta g1)))"
  by (simp add: generate_next_level_def decide_empty_def random_random_def split_beta Let_def)

text \<open>
  Claim C6 speaks of the probability of emptying and takes it to be the value
  \<^verbatim>\<open>empty_chance\<close>, strictly increasing beyond a streak of 2. The value is a threshold for
  a draw from the unit interval. At the incremented counter 7 it is 1 and at 8 it is 1.15:
  every draw is below both, emptying is certain at both counters, and the probability does
  not increase from 7 to 8.
\<close>

theorem empty_chance_streak_counterexample:
  "empty_chance 7 = Inr 1
   \<and> empty_chance 8 = Inr (2589569785738035 / 2251799813685248)
   \<and> (1 :: real) < 2589569785738035 / 2251799813685248
   \<and> (2 :: int) \<le> 7 \<and> (7 :: int) < 8
   \<and> empty_prob 1 = 1
   \<and> empty_prob (2589569785738035 / 2251799813685248) = 1
   \<and> \<not> empty_prob 1 < empty_prob (2589569785738035 / 2251799813685248)"
  by (simp add: chance_table empty_prob_def)

text \<open>
  Claim C6, amended: when the previous level is at least 90 and the counter is \<open>c\<close>, the
  generator empties the bin exactly when the uniform draw is below the threshold
  \<open>empty_chance (c + 1)\<close>, which is \<open>0.25 + 0.15 * max 0 (fc - 2)\<close> computed in double
  arithmetic from the incremented counter \<open>fc\<close>; if it does not empty and the new level is
  again at least 90 the counter is incremented once more. The probability of emptying is
  the threshold cut off at 1 (\<open>empty_prob\<close>). It is larger after three consecutive readings
  of at least 90 than after one (counter 6 against counter 2 in the code's counting, and
  also counter 3 against counter 1); it never decreases as the counter grows; it grows
  strictly for counters from 2 to 7; and from counter 7 on it is 1.
\<close>

theorem empty_chance_streak:
  "(last_levels st name = Some (Some prev) \<and> 90 \<le> prev \<and> full_counts st name = Some c
      \<and> empty_chance (c + 1) = Inr t \<longrightarrow>
      generate_next_level name st g =
        (let u = rng_floats g (rng_pos g); g1 = g\<lparr>rng_pos := Suc (rng_pos g)\<rparr> in
         if u < t
         then Inr (fst (random_randint 0 18 g1),
                   st\<lparr>last_levels := (last_levels st)(name \<mapsto> Some (fst (random_randint 0 18 g1))),
                      full_counts := (full_counts st)(name \<mapsto> 0)\<rparr>,
                   snd (random_randint 0 18 g1))
         else Inr (max 0 (min 100 (prev + fst (draw_delta g1))),
                   st\<lparr>last_levels := (last_levels st)(name \<mapsto> Some (max 0 (min 100 (prev + fst (draw_delta g1))))),
                      full_counts := (full_counts st)(name \<mapsto>
                         (if 90 \<le> max 0 (min 100 (prev + fst (draw_delta g1))) then c + 1 + 1 else 0))\<rparr>,
                   snd (draw_delta g1))))
   \<and> (max 0 (fc - 2) < 2 ^ 1024 - 2 ^ 970 \<longrightarrow>
        empty_chance fc =
          Inr (round_double (round_double 0.25
                 + round_double (round_double 0.15 * round_double (real_of_int (max 0 (fc - 2)))))))
   \<and> (empty_chance a = Inr ta \<and> empty_chance b = Inr tb \<and> a \<le> b
        \<longrightarrow> ta \<le> tb \<and> empty_prob ta \<le> empty_prob tb)
   \<and> (empty_chance a = Inr ta \<and> empty_chance b = Inr tb \<and> 2 \<le> a \<and> a < b \<and> b \<le> 7
        \<longrightarrow> empty_prob ta < empty_prob tb)
   \<and> (empty_chance a = Inr ta \<and> 7 \<le> a \<longrightarrow> empty_prob ta = 1)
   \<and> empty_chance 1 = Inr (1 / 4)
   \<and> empty_chance 2 = Inr (1 / 4)
   \<and> empty_chance 3 = Inr (3602879701896397 / 9007199254740992)
   \<and> empty_chance 6 = Inr (7656119366529843 / 9007199254740992)
   \<and> empty_prob (1 / 4) < empty_prob (3602879701896397 / 9007199254740992)
   \<and> empty_prob (1 / 4) < empty_prob (7656119366529843 / 9007199254740992)"
proof -
  have gen: "last_levels st name = Some (Some prev) \<and> 90 \<le> prev \<and> full_counts st name = Some c
      \<and> empty_chance (c + 1) = Inr t \<longrightarrow>
      generate_next_level name st g =
        (let u = rng_floats g (rng_pos g); g1 = g\<lparr>rng_pos := Suc (rng_pos g)\<rparr> in
         if u < t
         then Inr (fst (random_randint 0 18 g1),
                   st\<lparr>last_levels := (last_levels st)(name \<mapsto> Some (fst (random_randint 0 18 g1))),
                      full_counts := (full_counts st)(name \<mapsto> 0)\<rparr>,
                   snd (random_randint 0 18 g1))
         else Inr (max 0 (min 100 (prev + fst (draw_delta g1))),
                   st\<lparr>last_levels := (last_levels st)(name \<mapsto> Some (max 0 (min 100 (prev + fst (draw_delta g1))))),
                      full_counts := (full_counts st)(name \<mapsto>
                         (if 90 \<le> max 0 (min 100 (prev + fst (draw_delta g1))) then c + 1 + 1 else 0))\<rparr>,
                   snd (draw_delta g1)))"
    by (simp add: generate_next_level_def decide_empty_def random_random_def split_beta Let_def)
  have formula: "max 0 (fc - 2) < 2 ^ 1024 - 2 ^ 970 \<longrightarrow>
        empty_chance fc =
          Inr (round_double (round_double 0.25
                 + round_double (round_double 0.15 * round_double (real_of_int (max 0 (fc - 2))))))"
    using empty_chance_formula by blast
  have mono: "empty_chance a = Inr ta \<and> empty_chance b = Inr tb \<and> a \<le> b
        \<longrightarrow> ta \<le> tb \<and> empty_prob ta \<le> empty_prob tb"
  proof (intro impI)
    assume h: "empty_chance a = Inr ta \<and> empty_chance b = Inr tb \<and> a \<le> b"
    then have "ta \<le> tb"
      using empty_chance_mono[of a ta b tb] by blast
    then show "ta \<le> tb \<and> empty_prob ta \<le> empty_prob tb"
      by (simp add: empty_prob_def)
  qed
  have strict: "empty_chance a = Inr ta \<and> empty_chance b = Inr tb \<and> 2 \<le> a \<and> a < b \<and> b \<le> 7
        \<longrightarrow> empty_prob ta < empty_prob tb"
  proof (intro impI)
    assume h: "empty_chance a = Inr ta \<and> empty_chance b = Inr tb \<and> 2 \<le> a \<and> a < b \<and> b \<le> 7"
    then have ca: "a = 2 \<or> a = 3 \<or> a = 4 \<or> a = 5 \<or> a = 6"
      by arith
    from h have cb: "b = 3 \<or> b = 4 \<or> b = 5 \<or> b = 6 \<or> b = 7"
      by arith
    show "empty_prob ta < empty_prob tb"
      using h ca cb by (auto simp add: chance_table empty_prob_def)
  qed
  have top: "empty_chance a = Inr ta \<and> 7 \<le> a \<longrightarrow> empty_prob ta = 1"
  proof (intro impI)
    assume h: "empty_chance a = Inr ta \<and> 7 \<le> a"
    then have "1 \<le> ta"
      using empty_chance_mono[of 7 1 a ta] chance_table(7) by blast
    then show "empty_prob ta = 1"
      by (simp add: empty_prob_def)
  qed
  have vals: "empty_prob (1 / 4) < empty_prob (3602879701896397 / 9007199254740992)"
    "empty_prob (1 / 4) < empty_prob (7656119366529843 / 9007199254740992)"
    by (simp_all add: empty_prob_def)
  show ?thesis
    using gen formula mono strict top vals chance_table(1,2,3,6) by blast
qed

text \<open>
  The amended claim C6 on the bin at level 95 with counter 3: the chance used is that of
  counter 4, the double nearest to 0.55; the draw 0.9 is not below it, the level becomes 100
  and the counter 5. The chances at the counters 3 and 4 are ordered as the claim says.
\<close>

theorem empty_chance_streak_witness:
  "last_levels sample_sim ''yellow'' = Some (Some 95) \<and> (90 :: int) \<le> 95
   \<and> full_counts sample_sim ''yellow'' = Some 3
   \<and> empty_chance (3 + 1) = Inr (2476979795053773 / 4503599627370496)
   \<and> \<not> rng_floats sample_rng (rng_pos sample_rng) < 2476979795053773 / 4503599627370496
   \<and> map_sum fst (\<lambda>(new, st', g'). (new, full_counts st' ''yellow''))
        (generate_next_level ''yellow'' sample_sim sample_rng) = Inr (100, Some 5)
   \<and> max 0 ((4 :: int) - 2) < 2 ^ 1024 - 2 ^ 970
   \<and> empty_chance 3 = Inr (3602879701896397 / 9007199254740992)
   \<and> (3 :: int) \<le> 4 \<and> (2 :: int) \<le> 3 \<and> (3 :: int) < 4 \<and> (4 :: int) \<le> 7
   \<and> empty_prob (3602879701896397 / 9007199254740992)
       < empty_prob (2476979795053773 / 4503599627370496)
   \<and> empty_chance 7 = Inr 1 \<and> (7 :: int) \<le> 7 \<and> empty_prob 1 = 1"
proof -
  have c4: "empty_chance (3 + 1) = Inr (2476979795053773 / 4503599627370496)"
    using chance_table(4) by simp
  have u: "\<not> rng_floats sample_rng (rng_pos sample_rng) < 2476979795053773 / 4503599627370496"
    by (simp add: sample_rng_def)
  have step: "map_sum fst (\<lambda>(new, st', g'). (new, full_counts st' ''yellow''))
        (generate_next_level ''yellow'' sample_sim sample_rng) = Inr (100, Some 5)"
    using empty_chance_streak[of sample_sim "''yellow''" 95 3
            "2476979795053773 / 4503599627370496" sample_rng 4 3
            "3602879701896397 / 9007199254740992" 4 "2476979795053773 / 4503599627370496"]
      c4 u
    by (simp add: sample_sim_yellow sample_draw_delta Let_def)
  have ord: "empty_prob (3602879701896397 / 9007199254740992)
               < empty_prob (2476979795053773 / 4503599627370496)"
    using empty_chance_streak[of sample_sim "''yellow''" 95 3
            "2476979795053773 / 4503599627370496" sample_rng 4 3
            "3602879701896397 / 9007199254740992" 4 "2476979795053773 / 4503599627370496"]
      chance_table(3,4)
    by simp
  have small: "max 0 ((4 :: int) - 2) < 2 ^ 1024 - 2 ^ 970"
    by simp
  have top: "empty_prob 1 = 1"
    by (simp add: empty_prob_def)
  show ?thesis
    using c4 u step ord small top chance_table(3,7)
    by (simp add: sample_sim_yellow)
qed

end
